theory Spec2Isabelle
  imports Main
begin

section \<open>Python values, exceptions and the options dictionary\<close>

text \<open>
  The values a caller can put into the \<open>config\<close> dictionary of \<open>generate_chart\<close>
  (\<open>Dict[str, Any]\<close>): \<open>None\<close>, booleans, unbounded integers, strings, tuples and lists.
\<close>

datatype pyval =
    PNone
  | PBool bool
  | PInt int
  | PStr string
  | PTuple "pyval list"
  | PList "pyval list"

text \<open>Python's truth test, as used by \<open>if config['title']:\<close> and its siblings.\<close>

fun truthy :: "pyval \<Rightarrow> bool" where
  "truthy PNone = False"
| "truthy (PBool b) = b"
| "truthy (PInt i) = (i \<noteq> 0)"
| "truthy (PStr s) = (s \<noteq> [])"
| "truthy (PTuple vs) = (vs \<noteq> [])"
| "truthy (PList vs) = (vs \<noteq> [])"

text \<open>
  An exception: the name of its class and the text that \<open>str(e)\<close> gives. \<open>Exn\<close> is an
  instance of Python's \<open>Exception\<close>; \<open>BaseExn\<close> is an instance of \<open>BaseException\<close> outside
  \<open>Exception\<close> (\<open>KeyboardInterrupt\<close>, \<open>SystemExit\<close>, \<open>GeneratorExit\<close>), which a clause
  \<open>except Exception\<close> does not catch.
\<close>

datatype exn =
    is_exception: Exn (exn_class: string) (exn_str: string)
  | BaseExn (exn_class: string) (exn_str: string)

text \<open>Either an exception leaves the function, or it returns a value.\<close>

datatype 'a result = Raise exn | Return 'a

type_synonym config = "string \<rightharpoonup> pyval"

text \<open>Lines 61--76: the dictionary \<open>default_config\<close>.\<close>

definition default_config :: config where
  "default_config =
     [''title'' \<mapsto> PNone,
      ''figsize'' \<mapsto> PTuple [PInt 10, PInt 6],
      ''palette'' \<mapsto> PStr ''deep'',
      ''hue'' \<mapsto> PNone,
      ''style'' \<mapsto> PNone,
      ''orientation'' \<mapsto> PStr ''v'',
      ''bins'' \<mapsto> PInt 30,
      ''aggregate'' \<mapsto> PStr ''mean'',
      ''error_bars'' \<mapsto> PBool False,
      ''legend'' \<mapsto> PBool True,
      ''grid'' \<mapsto> PBool True,
      ''rotate_labels'' \<mapsto> PInt 0,
      ''font_size'' \<mapsto> PInt 10,
      ''theme'' \<mapsto> PStr ''darkgrid'']"

text \<open>
  Lines 79--81: \<open>if config is None: config = {}\<close> and then
  \<open>config = {**default_config, **config}\<close>; the right operand of the merge wins.
\<close>

definition merge_config :: "config option \<Rightarrow> config" where
  "merge_config config =
     default_config ++ (case config of None \<Rightarrow> Map.empty | Some c \<Rightarrow> c)"

section \<open>The libraries the function calls\<close>

text \<open>
  \<open>generate_chart\<close> computes nothing itself: it calls json, pandas, seaborn, matplotlib
  and boto3. Each such call is a value of \<open>call\<close> carrying the arguments the source
  passes. The objects handed from one call to the next (the frame \<open>df\<close>, the axes
  \<open>ax\<close>, the buffer \<open>img_data\<close>, the client \<open>s3\<close>) are unique in one invocation and
  are left implicit; a column of the frame and a pivot table are named by the
  expression that built them.
\<close>

datatype column = Column "string option"
  \<comment> \<open>\<open>df[key]\<close>\<close>

datatype table = Pivot "string option" string pyval pyval
  \<comment> \<open>\<open>pd.pivot_table(df, values, index, columns, aggfunc)\<close>\<close>

datatype call =
    JsonLoads string
    \<comment> \<open>\<open>json.loads(data_json)\<close>\<close>
  | DataFrame
    \<comment> \<open>\<open>pd.DataFrame(data)\<close>\<close>
  | SetTheme pyval
    \<comment> \<open>\<open>sns.set_theme(style)\<close>\<close>
  | SetFontSize pyval
    \<comment> \<open>\<open>plt.rcParams['font.size'] = value\<close>\<close>
  | Subplots pyval
    \<comment> \<open>\<open>plt.subplots(figsize)\<close>\<close>
  | Scatterplot string "string option" pyval pyval pyval
    \<comment> \<open>\<open>sns.scatterplot(data=df, x, y, hue, style, palette, ax=ax)\<close>\<close>
  | Lineplot string "string option" pyval pyval pyval pyval
    \<comment> \<open>\<open>sns.lineplot(data=df, x, y, hue, style, palette, errorbar, ax=ax)\<close>\<close>
  | Barplot string "string option" pyval pyval pyval pyval
    \<comment> \<open>\<open>sns.barplot(data=df, x, y, hue, palette, errorbar, estimator, ax=ax)\<close>\<close>
  | Boxplot string "string option" pyval pyval
    \<comment> \<open>\<open>sns.boxplot(data=df, x, y, hue, palette, ax=ax)\<close>\<close>
  | Violinplot string "string option" pyval pyval
    \<comment> \<open>\<open>sns.violinplot(data=df, x, y, hue, palette, ax=ax)\<close>\<close>
  | PivotTable table
    \<comment> \<open>the call of \<open>pd.pivot_table\<close> that builds the table\<close>
  | Heatmap table pyval
    \<comment> \<open>\<open>sns.heatmap(pivot_table, cmap, annot=True, fmt='.2f', ax=ax)\<close>\<close>
  | GetItem "string option"
    \<comment> \<open>the lookup \<open>df[key]\<close>\<close>
  | ColorPalette pyval
    \<comment> \<open>\<open>sns.color_palette(palette)\<close>\<close>
  | Pie column column pyval
    \<comment> \<open>\<open>plt.pie(sizes, labels, autopct='%1.1f%%', colors=sns.color_palette(palette))\<close>\<close>
  | Histplot string pyval pyval pyval
    \<comment> \<open>\<open>sns.histplot(data=df, x, hue, bins, palette, ax=ax)\<close>\<close>
  | Kdeplot string pyval pyval
    \<comment> \<open>\<open>sns.kdeplot(data=df, x, hue, palette, ax=ax)\<close>\<close>
  | Title pyval
    \<comment> \<open>\<open>plt.title(label)\<close>\<close>
  | Xlabel string
  | Ylabel string
  | Xticks pyval
    \<comment> \<open>\<open>plt.xticks(rotation)\<close>\<close>
  | Grid pyval
  | Legend
    \<comment> \<open>\<open>plt.legend([])\<close>\<close>
  | LegendRemove
    \<comment> \<open>\<open>.remove()\<close> on the legend just made\<close>
  | TightLayout
  | BytesIO
  | Savefig
    \<comment> \<open>\<open>plt.savefig(img_data, format='png', dpi=300, bbox_inches='tight')\<close>\<close>
  | Close
  | Seek
    \<comment> \<open>\<open>img_data.seek(0)\<close>\<close>
  | Session
    \<comment> \<open>\<open>boto3.Session()\<close>\<close>
  | Client string
    \<comment> \<open>\<open>session.client(service)\<close>\<close>
  | UploadFileobj string string
    \<comment> \<open>\<open>s3.upload_fileobj(img_data, bucket, key)\<close>\<close>

text \<open>
  The process-wide settings of the plotting library that the source assigns: the
  seaborn theme and matplotlib's \<open>font.size\<close>. The record is extensible; its \<open>more\<close>
  part stands for every other process-wide setting of the plotting library.
\<close>

record settings =
  theme :: pyval
  font_size :: pyval

text \<open>
  What a library call does is not in this repository, so it is a parameter. Given the
  calls made so far in this invocation and the next call, the library says whether the
  call raises, and which exception (\<open>raises\<close>), and what the call does to the process-wide
  settings, whether it returns or raises (\<open>effect\<close>).
\<close>

record 'z library =
  raises :: "call list \<Rightarrow> call \<Rightarrow> exn option"
  effect :: "call list \<Rightarrow> call \<Rightarrow> 'z settings_scheme \<Rightarrow> 'z settings_scheme"

text \<open>
  A statement sequence: it runs against the library, the settings and the trace of
  calls made so far, and gives a result, the settings and the trace afterwards.
\<close>

type_synonym ('a, 'z) prog =
  "'z library \<Rightarrow> 'z settings_scheme \<times> call list
     \<Rightarrow> 'a result \<times> 'z settings_scheme \<times> call list"

definition ret :: "'a \<Rightarrow> ('a, 'z) prog" where
  "ret x = (\<lambda>lib st. (Return x, st))"

definition raise :: "exn \<Rightarrow> ('a, 'z) prog" where
  "raise e = (\<lambda>lib st. (Raise e, st))"

definition bind :: "('a, 'z) prog \<Rightarrow> ('a \<Rightarrow> ('b, 'z) prog) \<Rightarrow> ('b, 'z) prog" where
  "bind m f = (\<lambda>lib st. case m lib st of
                 (Raise e, st') \<Rightarrow> (Raise e, st')
               | (Return x, st') \<Rightarrow> f x lib st')"

definition next_do :: "(unit, 'z) prog \<Rightarrow> ('b, 'z) prog \<Rightarrow> ('b, 'z) prog" where
  "next_do m n = bind m (\<lambda>_. n)"

text \<open>
  \<open>try: body except Exception as e: handler\<close>. The handler gets the instances of
  \<open>Exception\<close>; any other exception propagates.
\<close>

definition try_except :: "('a, 'z) prog \<Rightarrow> (exn \<Rightarrow> ('a, 'z) prog) \<Rightarrow> ('a, 'z) prog" where
  "try_except body handler = (\<lambda>lib st. case body lib st of
                                (Raise e, st') \<Rightarrow>
                                  if is_exception e then handler e lib st' else (Raise e, st')
                              | (Return x, st') \<Rightarrow> (Return x, st'))"

text \<open>
  A library call: it is appended to the trace and the library's effect on the settings
  takes place; when the library raises, the exception propagates.
\<close>

definition invoke :: "call \<Rightarrow> (unit, 'z) prog" where
  "invoke c = (\<lambda>lib (s, t). case raises lib t c of
                 Some e \<Rightarrow> (Raise e, effect lib t c s, t @ [c])
               | None \<Rightarrow> (Return (), effect lib t c s, t @ [c]))"

text \<open>\<open>config[key]\<close> on a dictionary: \<open>KeyError\<close> when the key is absent.\<close>

definition item :: "config \<Rightarrow> string \<Rightarrow> (pyval, 'z) prog" where
  "item config key =
     (case config key of
        None \<Rightarrow> raise (Exn ''KeyError'' ([CHR 0x27] @ key @ [CHR 0x27]))
      | Some v \<Rightarrow> ret v)"

section \<open>Strings\<close>

text \<open>
  \<open>str.capitalize()\<close> on ASCII text: the first character in upper case, the others in
  lower case. Characters outside \<open>a..z\<close> and \<open>A..Z\<close> are kept; the function is applied
  to \<open>chart_type\<close> only after the dispatch has accepted it, so only to one of the nine
  lower-case ASCII tags.
\<close>

definition upper_char :: "char \<Rightarrow> char" where
  "upper_char c =
     (case map_of (zip ''abcdefghijklmnopqrstuvwxyz'' ''ABCDEFGHIJKLMNOPQRSTUVWXYZ'') c of
        Some u \<Rightarrow> u
      | None \<Rightarrow> c)"

definition lower_char :: "char \<Rightarrow> char" where
  "lower_char c =
     (case map_of (zip ''ABCDEFGHIJKLMNOPQRSTUVWXYZ'' ''abcdefghijklmnopqrstuvwxyz'') c of
        Some l \<Rightarrow> l
      | None \<Rightarrow> c)"

fun capitalize :: "string \<Rightarrow> string" where
  "capitalize [] = []"
| "capitalize (c # cs) = upper_char c # map lower_char cs"

text \<open>The truth test \<open>if y_axis\<close> on an optional string: neither \<open>None\<close> nor empty.\<close>

fun given :: "string option \<Rightarrow> bool" where
  "given None = False"
| "given (Some s) = (s \<noteq> [])"

text \<open>The expression \<open>y_axis if y_axis else ''\<close> inside the default title.\<close>

definition y_text :: "string option \<Rightarrow> string" where
  "y_text y_axis = (case y_axis of None \<Rightarrow> [] | Some s \<Rightarrow> if given y_axis then s else [])"

text \<open>
  Line 200: the formatted string
  \<open>f"{chart_type.capitalize()} Chart: {y_axis if y_axis else ''} vs {x_axis}"\<close>.
\<close>

definition default_title :: "string \<Rightarrow> string \<Rightarrow> string option \<Rightarrow> string" where
  "default_title chart_type x_axis y_axis =
     capitalize chart_type @ '' Chart: '' @ y_text y_axis @ '' vs '' @ x_axis"

section \<open>The function \<open>generate_chart\<close>\<close>

text \<open>Lines 83--92: parse the payload, build the frame, set the theme, open the figure.\<close>

definition prepare :: "string \<Rightarrow> config \<Rightarrow> (unit, 'z) prog" where
  "prepare data_json config =
     next_do (invoke (JsonLoads data_json))
    (next_do (invoke DataFrame)
    (next_do (bind (item config ''theme'') (\<lambda>style. invoke (SetTheme style)))
    (next_do (bind (item config ''font_size'') (\<lambda>v. invoke (SetFontSize v)))
             (bind (item config ''figsize'') (\<lambda>figsize. invoke (Subplots figsize))))))"

text \<open>
  Lines 95--194: the chain of \<open>if\<close>/\<open>elif\<close> on \<open>chart_type\<close>, with the arguments of
  each call evaluated in the order they are written.
\<close>

definition plot :: "string \<Rightarrow> string \<Rightarrow> string option \<Rightarrow> config \<Rightarrow> (unit, 'z) prog" where
  "plot chart_type x_axis y_axis config =
     (if chart_type = ''scatter'' then
        bind (item config ''hue'') (\<lambda>hue.
        bind (item config ''style'') (\<lambda>style.
        bind (item config ''palette'') (\<lambda>palette.
        invoke (Scatterplot x_axis y_axis hue style palette))))
      else if chart_type = ''line'' then
        bind (item config ''hue'') (\<lambda>hue.
        bind (item config ''style'') (\<lambda>style.
        bind (item config ''palette'') (\<lambda>palette.
        bind (item config ''error_bars'') (\<lambda>error_bars.
        invoke (Lineplot x_axis y_axis hue style palette
                  (if truthy error_bars then PStr ''sd'' else PNone))))))
      else if chart_type = ''bar'' then
        bind (item config ''hue'') (\<lambda>hue.
        bind (item config ''palette'') (\<lambda>palette.
        bind (item config ''error_bars'') (\<lambda>error_bars.
        bind (item config ''aggregate'') (\<lambda>estimator.
        invoke (Barplot x_axis y_axis hue palette
                  (if truthy error_bars then PStr ''sd'' else PNone) estimator)))))
      else if chart_type = ''box'' then
        bind (item config ''hue'') (\<lambda>hue.
        bind (item config ''palette'') (\<lambda>palette.
        invoke (Boxplot x_axis y_axis hue palette)))
      else if chart_type = ''violin'' then
        bind (item config ''hue'') (\<lambda>hue.
        bind (item config ''palette'') (\<lambda>palette.
        invoke (Violinplot x_axis y_axis hue palette)))
      else if chart_type = ''heatmap'' then
        bind (item config ''hue'') (\<lambda>test.
        bind (if truthy test then item config ''hue'' else ret PNone) (\<lambda>columns.
        bind (item config ''aggregate'') (\<lambda>aggfunc.
        next_do (invoke (PivotTable (Pivot y_axis x_axis columns aggfunc)))
       (bind (item config ''palette'') (\<lambda>cmap.
        invoke (Heatmap (Pivot y_axis x_axis columns aggfunc) cmap))))))
      else if chart_type = ''pie'' then
        next_do (invoke (GetItem y_axis))
       (next_do (invoke (GetItem (Some x_axis)))
       (bind (item config ''palette'') (\<lambda>palette.
        next_do (invoke (ColorPalette palette))
                (invoke (Pie (Column y_axis) (Column (Some x_axis)) palette)))))
      else if chart_type = ''histogram'' then
        bind (item config ''hue'') (\<lambda>hue.
        bind (item config ''bins'') (\<lambda>bins.
        bind (item config ''palette'') (\<lambda>palette.
        invoke (Histplot x_axis hue bins palette))))
      else if chart_type = ''kde'' then
        bind (item config ''hue'') (\<lambda>hue.
        bind (item config ''palette'') (\<lambda>palette.
        invoke (Kdeplot x_axis hue palette)))
      else
        raise (Exn ''ValueError'' (''Unsupported chart type: '' @ chart_type)))"

text \<open>Lines 196--218: title, axis labels, tick rotation, grid, legend, layout.\<close>

definition customize :: "string \<Rightarrow> string \<Rightarrow> string option \<Rightarrow> config \<Rightarrow> (unit, 'z) prog" where
  "customize chart_type x_axis y_axis config =
     next_do (bind (item config ''title'') (\<lambda>test.
                if truthy test
                then bind (item config ''title'') (\<lambda>title. invoke (Title title))
                else invoke (Title (PStr (default_title chart_type x_axis y_axis)))))
    (next_do (invoke (Xlabel x_axis))
    (next_do (if given y_axis
              then (case y_axis of Some y \<Rightarrow> invoke (Ylabel y) | None \<Rightarrow> ret ())
              else ret ())
    (next_do (bind (item config ''rotate_labels'') (\<lambda>test.
                if truthy test
                then bind (item config ''rotate_labels'') (\<lambda>rotation. invoke (Xticks rotation))
                else ret ()))
    (next_do (bind (item config ''grid'') (\<lambda>grid. invoke (Grid grid)))
    (next_do (bind (item config ''legend'') (\<lambda>legend.
                if \<not> truthy legend
                then next_do (invoke Legend) (invoke LegendRemove)
                else ret ()))
             (invoke TightLayout))))))"

text \<open>Lines 220--226: render the figure into a buffer and rewind it.\<close>

definition save_figure :: "(unit, 'z) prog" where
  "save_figure =
     next_do (invoke BytesIO)
    (next_do (invoke Savefig)
    (next_do (invoke Close)
             (invoke Seek)))"

text \<open>Line 231.\<close>

definition bucket_name :: string where
  "bucket_name = ''gdsc-bucket-891377155936''"

text \<open>
  Lines 234--239: the \<open>try\<close> statement. The upload and the \<open>return\<close> of the address
  are inside it; the handler returns the message of the exception.
\<close>

definition try_upload :: "string \<Rightarrow> (string, 'z) prog" where
  "try_upload filename =
     try_except
       (next_do (invoke (UploadFileobj bucket_name filename))
                (ret (''https://'' @ bucket_name @ ''.s3.amazonaws.com/'' @ filename)))
       (\<lambda>e. ret (''An error occurred: '' @ exn_str e))"

text \<open>Lines 229--239: the session and the client are made before the \<open>try\<close>.\<close>

definition upload :: "string \<Rightarrow> (string, 'z) prog" where
  "upload filename =
     next_do (invoke Session)
    (next_do (invoke (Client ''s3''))
             (try_upload filename))"

text \<open>
  The whole body of the function (the decorator \<open>@tool\<close> only registers it and is not
  part of the body). An invocation is \<open>generate_chart ... lib (s, [])\<close>: the library, the
  settings the process has when the call starts, and an empty trace.
\<close>

definition generate_chart ::
  "string \<Rightarrow> string \<Rightarrow> string \<Rightarrow> string \<Rightarrow> string option \<Rightarrow> config option \<Rightarrow> (string, 'z) prog" where
  "generate_chart chart_type data_json filename x_axis y_axis config =
     next_do (prepare data_json (merge_config config))
    (next_do (plot chart_type x_axis y_axis (merge_config config))
    (next_do (customize chart_type x_axis y_axis (merge_config config))
    (next_do save_figure
             (upload filename))))"

section \<open>Vocabulary of the properties\<close>

text \<open>The nine tags the chain of line 95 to line 192 accepts.\<close>

definition supported :: "string \<Rightarrow> bool" where
  "supported chart_type \<longleftrightarrow>
     chart_type \<in> set [''scatter'', ''line'', ''bar'', ''box'', ''violin'', ''heatmap'', ''pie'',
                       ''histogram'', ''kde'']"

text \<open>
  The value the merged dictionary holds under a key. Every key the body reads is a key
  of \<open>default_config\<close>, hence of the merged dictionary (lemma \<open>item_merged\<close> below), so the
  last branch is never taken for such a key.
\<close>

definition option_value :: "config option \<Rightarrow> string \<Rightarrow> pyval" where
  "option_value config key = (case merge_config config key of Some v \<Rightarrow> v | None \<Rightarrow> PNone)"

text \<open>The nine plotting procedures.\<close>

fun is_plot_call :: "call \<Rightarrow> bool" where
  "is_plot_call (Scatterplot x y hue style palette) = True"
| "is_plot_call (Lineplot x y hue style palette errorbar) = True"
| "is_plot_call (Barplot x y hue palette errorbar estimator) = True"
| "is_plot_call (Boxplot x y hue palette) = True"
| "is_plot_call (Violinplot x y hue palette) = True"
| "is_plot_call (Heatmap tbl cmap) = True"
| "is_plot_call (Pie sizes labels palette) = True"
| "is_plot_call (Histplot x hue bins palette) = True"
| "is_plot_call (Kdeplot x hue palette) = True"
| "is_plot_call c = False"

text \<open>
  The column name a plotting call receives for the y axis: its \<open>y\<close> argument, the
  \<open>values\<close> of the pivot table under a heat map, the key of the column of wedge sizes of a
  pie; \<open>None\<close> when the call is given none.
\<close>

fun y_argument :: "call \<Rightarrow> string option" where
  "y_argument (Scatterplot x y hue style palette) = y"
| "y_argument (Lineplot x y hue style palette errorbar) = y"
| "y_argument (Barplot x y hue palette errorbar estimator) = y"
| "y_argument (Boxplot x y hue palette) = y"
| "y_argument (Violinplot x y hue palette) = y"
| "y_argument (Heatmap (Pivot vals index columns aggfunc) cmap) = vals"
| "y_argument (Pie (Column key) labels palette) = key"
| "y_argument c = None"

text \<open>The calls of lines 197 to 215 that decorate the figure.\<close>

fun is_cosmetic :: "call \<Rightarrow> bool" where
  "is_cosmetic (Title label) = True"
| "is_cosmetic (Xlabel label) = True"
| "is_cosmetic (Ylabel label) = True"
| "is_cosmetic (Xticks rotation) = True"
| "is_cosmetic (Grid flag) = True"
| "is_cosmetic Legend = True"
| "is_cosmetic LegendRemove = True"
| "is_cosmetic c = False"

fun is_title :: "call \<Rightarrow> bool" where
  "is_title (Title label) = True"
| "is_title c = False"

fun is_upload :: "call \<Rightarrow> bool" where
  "is_upload (UploadFileobj bucket key) = True"
| "is_upload c = False"


text \<open>
  The settings that the library's effects of a list of calls, made in order after the
  calls \<open>history\<close>, leave behind.
\<close>

fun replay :: "'z library \<Rightarrow> call list \<Rightarrow> call list \<Rightarrow> 'z settings_scheme \<Rightarrow> 'z settings_scheme" where
  "replay lib history [] s = s"
| "replay lib history (c # cs) s = replay lib (history @ [c]) cs (effect lib history c s)"

text \<open>
  Libraries for the worked examples. Their effect on the settings is one a plotting
  library may have: \<open>set_theme\<close> stores the style and puts the font size back to the
  theme's own \<open>12\<close>, the assignment to \<open>font.size\<close> stores the value, and no other call
  changes a setting.
\<close>

fun example_effect :: "call \<Rightarrow> 'z settings_scheme \<Rightarrow> 'z settings_scheme" where
  "example_effect (SetTheme style) s = s\<lparr>theme := style, font_size := PInt 12\<rparr>"
| "example_effect (SetFontSize v) s = s\<lparr>font_size := v\<rparr>"
| "example_effect c s = s"

text \<open>A library none of whose calls raises, and the settings of a fresh process.\<close>

definition no_failure :: "'z library" where
  "no_failure = \<lparr>raises = (\<lambda>history c. None), effect = (\<lambda>history. example_effect)\<rparr>"

definition fresh :: settings where
  "fresh = \<lparr>theme = PNone, font_size = PNone\<rparr>"

text \<open>A library in which one call raises one exception and every other call returns.\<close>

definition failing_at :: "call \<Rightarrow> exn \<Rightarrow> 'z library" where
  "failing_at bad e =
     \<lparr>raises = (\<lambda>history c. if c = bad then Some e else None),
      effect = (\<lambda>history. example_effect)\<rparr>"

text \<open>A payload with two columns, \<open>a\<close> and \<open>b\<close>, for the worked examples.\<close>

definition sample_data :: string where
  \<open>sample_data = ''{"a": [1, 2, 3], "b": [4, 5, 6]}''\<close>

text \<open>
  Options for the worked examples of the decoration: a title, a rotation of the tick
  labels and no legend.
\<close>

definition styled :: "config option" where
  "styled = Some [''title'' \<mapsto> PStr ''Sales'', ''rotate_labels'' \<mapsto> PInt 45,
                  ''legend'' \<mapsto> PBool False]"

subsection \<open>The body as a list of calls\<close>

text \<open>
  The body branches on its arguments only, never on what a library call returns, so the
  calls of an invocation are a prefix of a list fixed by the arguments. \<open>run\<close> makes the
  calls of a list in order and stops at the first that raises.
\<close>

fun run :: "call list \<Rightarrow> (unit, 'z) prog" where
  "run [] = ret ()"
| "run (c # cs) = next_do (invoke c) (run cs)"

definition prepare_calls :: "string \<Rightarrow> config option \<Rightarrow> call list" where
  "prepare_calls data_json config =
     [JsonLoads data_json, DataFrame, SetTheme (option_value config ''theme''),
      SetFontSize (option_value config ''font_size''), Subplots (option_value config ''figsize'')]"

definition plot_calls :: "string \<Rightarrow> string \<Rightarrow> string option \<Rightarrow> config option \<Rightarrow> call list" where
  "plot_calls chart_type x_axis y_axis config =
     (let hue = option_value config ''hue''; style = option_value config ''style'';
          palette = option_value config ''palette'';
          errorbar = (if truthy (option_value config ''error_bars'') then PStr ''sd'' else PNone);
          aggregate = option_value config ''aggregate'';
          tbl = Pivot y_axis x_axis (if truthy hue then hue else PNone) aggregate
      in if chart_type = ''scatter'' then [Scatterplot x_axis y_axis hue style palette]
         else if chart_type = ''line'' then [Lineplot x_axis y_axis hue style palette errorbar]
         else if chart_type = ''bar'' then [Barplot x_axis y_axis hue palette errorbar aggregate]
         else if chart_type = ''box'' then [Boxplot x_axis y_axis hue palette]
         else if chart_type = ''violin'' then [Violinplot x_axis y_axis hue palette]
         else if chart_type = ''heatmap'' then [PivotTable tbl, Heatmap tbl palette]
         else if chart_type = ''pie'' then
           [GetItem y_axis, GetItem (Some x_axis), ColorPalette palette,
            Pie (Column y_axis) (Column (Some x_axis)) palette]
         else if chart_type = ''histogram'' then
           [Histplot x_axis hue (option_value config ''bins'') palette]
         else if chart_type = ''kde'' then [Kdeplot x_axis hue palette]
         else [])"

definition cosmetic_calls :: "string \<Rightarrow> string \<Rightarrow> string option \<Rightarrow> config option \<Rightarrow> call list" where
  "cosmetic_calls chart_type x_axis y_axis config =
     [Title (if truthy (option_value config ''title'') then option_value config ''title''
             else PStr (default_title chart_type x_axis y_axis)),
      Xlabel x_axis]
     @ (case y_axis of None \<Rightarrow> [] | Some y \<Rightarrow> if y = [] then [] else [Ylabel y])
     @ (if truthy (option_value config ''rotate_labels'')
        then [Xticks (option_value config ''rotate_labels'')] else [])
     @ [Grid (option_value config ''grid'')]
     @ (if truthy (option_value config ''legend'') then [] else [Legend, LegendRemove])"

definition closing_calls :: "call list" where
  "closing_calls = [TightLayout, BytesIO, Savefig, Close, Seek, Session, Client ''s3'']"

definition script :: "string \<Rightarrow> string \<Rightarrow> string \<Rightarrow> string option \<Rightarrow> config option \<Rightarrow> call list" where
  "script chart_type data_json x_axis y_axis config =
     prepare_calls data_json config @ plot_calls chart_type x_axis y_axis config
     @ cosmetic_calls chart_type x_axis y_axis config @ closing_calls"

section \<open>The body as a run of its call list\<close>

lemma bind_ret: "bind (ret x) f = f x"
  by (simp add: bind_def ret_def)

lemma bind_raise: "bind (raise e) f = raise e"
  by (simp add: bind_def raise_def)

lemma bind_assoc: "bind (bind m f) g = bind m (\<lambda>x. bind (f x) g)"
  by (auto simp: bind_def fun_eq_iff split: prod.splits result.splits)

lemma next_do_ret: "next_do (ret ()) m = m"
  by (simp add: next_do_def bind_ret)

lemma next_do_assoc: "next_do (next_do a b) m = next_do a (next_do b m)"
  by (simp add: next_do_def bind_assoc)

lemma next_do_bind: "next_do (bind a f) m = bind a (\<lambda>x. next_do (f x) m)"
  by (simp add: next_do_def bind_assoc)

lemma run_append: "next_do (run a) (run b) = run (a @ b)"
  by (induction a) (simp_all add: next_do_ret next_do_assoc)

lemma run_append_do: "next_do (run a) (next_do (run b) m) = next_do (run (a @ b)) m"
  by (simp add: run_append [symmetric] next_do_assoc)

lemma run_nil: "ret () = run []"
  by simp

lemma invoke_run: "invoke c = run [c]"
  by (simp add: next_do_def bind_def ret_def invoke_def fun_eq_iff split: option.splits)

lemma merged_default: "default_config key = Some d \<Longrightarrow> merge_config c key \<noteq> None"
  by (cases c) (auto simp: merge_config_def map_add_def split: option.splits)

lemma item_merged:
  "default_config key \<noteq> None \<Longrightarrow> item (merge_config c) key = ret (option_value c key)"
  using merged_default [of key _ c]
  by (auto simp: item_def option_value_def split: option.splits)

lemma default_keys:
  "default_config ''title'' \<noteq> None" "default_config ''figsize'' \<noteq> None"
  "default_config ''palette'' \<noteq> None" "default_config ''hue'' \<noteq> None"
  "default_config ''style'' \<noteq> None" "default_config ''bins'' \<noteq> None"
  "default_config ''aggregate'' \<noteq> None" "default_config ''error_bars'' \<noteq> None"
  "default_config ''legend'' \<noteq> None" "default_config ''grid'' \<noteq> None"
  "default_config ''rotate_labels'' \<noteq> None" "default_config ''font_size'' \<noteq> None"
  "default_config ''theme'' \<noteq> None"
  by (simp_all add: default_config_def)

lemmas items = default_keys [THEN item_merged]

lemma prepare_run: "prepare d (merge_config c) = run (prepare_calls d c)"
  by (simp add: prepare_def prepare_calls_def items bind_ret invoke_run run_append run_append_do del: run.simps)

lemma plot_run:
  "supported ct \<Longrightarrow> plot ct x y (merge_config c) = run (plot_calls ct x y c)"
  by (auto simp: supported_def plot_def plot_calls_def items bind_ret invoke_run run_append run_append_do Let_def simp del: run.simps)

lemma plot_unsupported:
  "\<not> supported ct \<Longrightarrow> plot ct x y (merge_config c) = raise (Exn ''ValueError'' (''Unsupported chart type: '' @ ct))"
  by (simp add: supported_def plot_def)

lemma customize_run:
  "next_do (customize ct x y (merge_config c)) save_figure = run (cosmetic_calls ct x y c @ [TightLayout, BytesIO, Savefig, Close, Seek])"
  by (cases y) (simp_all add: customize_def save_figure_def cosmetic_calls_def items bind_ret invoke_run run_append run_append_do next_do_ret next_do_assoc run_nil del: run.simps)


lemma next_do_raise: "next_do (raise e) m = raise e"
  by (simp add: next_do_def bind_raise)

lemma upload_run: "upload f = next_do (run [Session, Client ''s3'']) (try_upload f)"
  by (simp add: upload_def next_do_assoc next_do_ret)

lemma decorate_run:
  "next_do (customize ct x y (merge_config c)) (next_do save_figure (upload f))
     = next_do (run (cosmetic_calls ct x y c @ closing_calls)) (try_upload f)"
  unfolding next_do_assoc [symmetric] customize_run upload_run
  by (simp add: run_append closing_calls_def del: run.simps)

lemma generate_chart_supported:
  assumes "supported ct"
  shows "generate_chart ct d f x y c = next_do (run (script ct d x y c)) (try_upload f)"
  by (simp only: generate_chart_def prepare_run plot_run [OF assms] decorate_run
        run_append_do script_def append_assoc)

lemma generate_chart_unsupported:
  assumes "\<not> supported ct"
  shows "generate_chart ct d f x y c =
           next_do (run (prepare_calls d c))
                   (raise (Exn ''ValueError'' (''Unsupported chart type: '' @ ct)))"
  unfolding generate_chart_def prepare_run plot_unsupported [OF assms]
  by (simp add: next_do_raise)

lemma replay_append:
  "replay lib h (a @ b) s = replay lib (h @ a) b (replay lib h a s)"
  by (induction a arbitrary: h s) simp_all

lemma replay_snoc:
  "replay lib h (cs @ [c]) s = effect lib (h @ cs) c (replay lib h cs s)"
  by (simp add: replay_append)

lemma run_sem:
  "run cs lib (s, t) = (r, s', t') \<Longrightarrow>
     (r = Return () \<and> t' = t @ cs \<and> s' = replay lib t cs s
        \<and> (\<forall>m < length cs. raises lib (t @ take m cs) (cs ! m) = None))
   \<or> (\<exists>n e. n < length cs \<and> r = Raise e \<and> t' = t @ take (Suc n) cs
        \<and> raises lib (t @ take n cs) (cs ! n) = Some e
        \<and> s' = replay lib t (take (Suc n) cs) s
        \<and> (\<forall>m < n. raises lib (t @ take m cs) (cs ! m) = None))"
proof (induction cs arbitrary: s t)
  case Nil
  then show ?case by (simp add: ret_def)
next
  case (Cons c cs)
  show ?case
  proof (cases "raises lib t c")
    case (Some e)
    with Cons.prems have "r = Raise e" "t' = t @ [c]" "s' = effect lib t c s"
      by (auto simp: next_do_def bind_def invoke_def)
    with Some show ?thesis
      by (intro disjI2 exI [of _ 0] exI [of _ e]) simp
  next
    case None
    with Cons.prems have "run cs lib (effect lib t c s, t @ [c]) = (r, s', t')"
      by (simp add: next_do_def bind_def invoke_def)
    from Cons.IH [OF this] show ?thesis
    proof (elim disjE conjE exE)
      assume a: "r = Return ()" "t' = (t @ [c]) @ cs"
        "s' = replay lib (t @ [c]) cs (effect lib t c s)"
        "\<forall>m<length cs. raises lib ((t @ [c]) @ take m cs) (cs ! m) = None"
      have "\<forall>m<length (c # cs). raises lib (t @ take m (c # cs)) ((c # cs) ! m) = None"
      proof (intro allI impI)
        fix m assume "m < length (c # cs)"
        then show "raises lib (t @ take m (c # cs)) ((c # cs) ! m) = None"
          using a(4) None by (cases m) auto
      qed
      with a show ?thesis by simp
    next
      fix n e
      assume a: "n < length cs" "r = Raise e" "t' = (t @ [c]) @ take (Suc n) cs"
        "raises lib ((t @ [c]) @ take n cs) (cs ! n) = Some e"
        "s' = replay lib (t @ [c]) (take (Suc n) cs) (effect lib t c s)"
        "\<forall>m<n. raises lib ((t @ [c]) @ take m cs) (cs ! m) = None"
      have "\<forall>m<Suc n. raises lib (t @ take m (c # cs)) ((c # cs) ! m) = None"
      proof (intro allI impI)
        fix m assume "m < Suc n"
        then show "raises lib (t @ take m (c # cs)) ((c # cs) ! m) = None"
          using a(6) None by (cases m) auto
      qed
      with a show ?thesis
        by (intro disjI2 exI [of _ "Suc n"] exI [of _ e]) simp
    qed
  qed
qed

lemma try_upload_sem:
  "try_upload f lib (s, t) =
     (case raises lib t (UploadFileobj bucket_name f) of
        None \<Rightarrow> (Return (''https://'' @ bucket_name @ ''.s3.amazonaws.com/'' @ f),
                  effect lib t (UploadFileobj bucket_name f) s,
                  t @ [UploadFileobj bucket_name f])
      | Some e \<Rightarrow> (if is_exception e then Return (''An error occurred: '' @ exn_str e)
                    else Raise e,
                    effect lib t (UploadFileobj bucket_name f) s,
                    t @ [UploadFileobj bucket_name f]))"
  by (simp add: try_upload_def try_except_def next_do_def bind_def invoke_def ret_def
      split: option.splits)

lemma invocation_cases:
  assumes "generate_chart ct d f x y c lib (s, []) = (r, s', t)"
  obtains
    (stopped) n e where "n < length (script ct d x y c)" "supported ct \<or> n < 5"
      "t = take (Suc n) (script ct d x y c)"
      "raises lib (take n (script ct d x y c)) (script ct d x y c ! n) = Some e"
      "r = Raise e" "s' = replay lib [] t s"
      "\<forall>m < n. raises lib (take m (script ct d x y c)) (script ct d x y c ! m) = None"
  | (rejected) "\<not> supported ct" "t = prepare_calls d c"
      "r = Raise (Exn ''ValueError'' (''Unsupported chart type: '' @ ct))"
      "s' = replay lib [] t s"
      "\<forall>m < 5. raises lib (take m (prepare_calls d c)) (prepare_calls d c ! m) = None"
  | (uploaded) "supported ct" "t = script ct d x y c @ [UploadFileobj bucket_name f]"
      "raises lib (script ct d x y c) (UploadFileobj bucket_name f) = None"
      "r = Return (''https://'' @ bucket_name @ ''.s3.amazonaws.com/'' @ f)"
      "s' = replay lib [] t s"
      "\<forall>m < length (script ct d x y c).
         raises lib (take m (script ct d x y c)) (script ct d x y c ! m) = None"
  | (refused) e where "supported ct" "t = script ct d x y c @ [UploadFileobj bucket_name f]"
      "raises lib (script ct d x y c) (UploadFileobj bucket_name f) = Some e"
      "r = Return (''An error occurred: '' @ exn_str e)"
      "s' = replay lib [] t s"
      "\<forall>m < length (script ct d x y c).
         raises lib (take m (script ct d x y c)) (script ct d x y c ! m) = None"
      "is_exception e"
  | (interrupted) e where "supported ct"
      "t = script ct d x y c @ [UploadFileobj bucket_name f]"
      "raises lib (script ct d x y c) (UploadFileobj bucket_name f) = Some e"
      "r = Raise e"
      "s' = replay lib [] t s"
      "\<forall>m < length (script ct d x y c).
         raises lib (take m (script ct d x y c)) (script ct d x y c ! m) = None"
      "\<not> is_exception e"
proof (cases "supported ct")
  case True
  let ?S = "script ct d x y c"
  let ?U = "UploadFileobj bucket_name f"
  obtain r1 s1 t1 where r1: "run ?S lib (s, []) = (r1, s1, t1)"
    by (metis prod_cases3)
  from run_sem [OF r1] show ?thesis
  proof (elim disjE conjE exE)
    assume a: "r1 = Return ()" "t1 = [] @ ?S" "s1 = replay lib [] ?S s"
      and ok: "\<forall>m<length ?S. raises lib ([] @ take m ?S) (?S ! m) = None"
    from r1 a True have "generate_chart ct d f x y c lib (s, []) =
        try_upload f lib (replay lib [] ?S s, ?S)"
      by (simp add: generate_chart_supported next_do_def bind_def)
    with assms have up: "try_upload f lib (replay lib [] ?S s, ?S) = (r, s', t)"
      by simp
    show ?thesis
    proof (cases "raises lib ?S ?U")
      case None
      with up [symmetric] have "(r, s', t) =
          (Return (''https://'' @ bucket_name @ ''.s3.amazonaws.com/'' @ f),
           replay lib [] (?S @ [?U]) s, ?S @ [?U])"
        by (simp add: try_upload_sem replay_snoc)
      then have "t = ?S @ [?U]"
        "r = Return (''https://'' @ bucket_name @ ''.s3.amazonaws.com/'' @ f)"
        "s' = replay lib [] (?S @ [?U]) s"
        by (simp_all only: prod.inject)
      with None True ok show ?thesis by (intro uploaded) simp_all
    next
      case (Some e)
      with up [symmetric] have "(r, s', t) =
          (if is_exception e then Return (''An error occurred: '' @ exn_str e) else Raise e,
           replay lib [] (?S @ [?U]) s, ?S @ [?U])"
        by (simp add: try_upload_sem replay_snoc)
      then have t: "t = ?S @ [?U]" and s': "s' = replay lib [] (?S @ [?U]) s"
        and r: "r = (if is_exception e then Return (''An error occurred: '' @ exn_str e)
                     else Raise e)"
        by (simp_all only: prod.inject)
      show ?thesis
      proof (cases "is_exception e")
        case True
        with t s' r Some \<open>supported ct\<close> ok show ?thesis by (intro refused [of e]) simp_all
      next
        case False
        with t s' r Some \<open>supported ct\<close> ok show ?thesis by (intro interrupted [of e]) simp_all
      qed
    qed
  next
    fix n e
    assume a: "n < length ?S" "r1 = Raise e"
      "t1 = [] @ take (Suc n) ?S"
      "raises lib ([] @ take n ?S) (?S ! n) = Some e"
      "s1 = replay lib [] (take (Suc n) ?S) s"
      "\<forall>m<n. raises lib ([] @ take m ?S) (?S ! m) = None"
    from r1 a(2) True have "generate_chart ct d f x y c lib (s, []) = (Raise e, s1, t1)"
      by (simp add: generate_chart_supported next_do_def bind_def)
    with assms have "r = Raise e" "s' = s1" "t = t1"
      by simp_all
    with a True show ?thesis by (intro stopped [of n e]) simp_all
  qed
next
  case False
  let ?P = "prepare_calls d c"
  have len: "length ?P = 5" by (simp add: prepare_calls_def)
  have pre: "\<And>k. k \<le> 5 \<Longrightarrow> take k (script ct d x y c) = take k ?P"
    by (simp add: script_def len)
  have nth: "\<And>k. k < 5 \<Longrightarrow> script ct d x y c ! k = ?P ! k"
    by (simp add: script_def len nth_append)
  obtain r1 s1 t1 where r1: "run ?P lib (s, []) = (r1, s1, t1)"
    by (metis prod_cases3)
  from run_sem [OF r1] show ?thesis
  proof (elim disjE conjE exE)
    assume a: "r1 = Return ()" "t1 = [] @ ?P" "s1 = replay lib [] ?P s"
      "\<forall>m<length ?P. raises lib ([] @ take m ?P) (?P ! m) = None"
    from r1 a(1) False have "generate_chart ct d f x y c lib (s, []) =
        (Raise (Exn ''ValueError'' (''Unsupported chart type: '' @ ct)), s1, t1)"
      by (simp add: generate_chart_unsupported next_do_def bind_def raise_def)
    with assms have "r = Raise (Exn ''ValueError'' (''Unsupported chart type: '' @ ct))"
      "s' = s1" "t = t1"
      by simp_all
    with a False len show ?thesis by (intro rejected) auto
  next
    fix n e
    assume a: "n < length ?P" "r1 = Raise e" "t1 = [] @ take (Suc n) ?P"
      "raises lib ([] @ take n ?P) (?P ! n) = Some e"
      "s1 = replay lib [] (take (Suc n) ?P) s"
      "\<forall>m<n. raises lib ([] @ take m ?P) (?P ! m) = None"
    from r1 a(2) False have "generate_chart ct d f x y c lib (s, []) = (Raise e, s1, t1)"
      by (simp add: generate_chart_unsupported next_do_def bind_def)
    with assms have "r = Raise e" "s' = s1" "t = t1"
      by simp_all
    moreover have "n < 5" using a(1) len by simp
    moreover have "n < length (script ct d x y c)" using \<open>n < 5\<close> len by (simp add: script_def)
    moreover have "\<forall>m<n. raises lib (take m (script ct d x y c)) (script ct d x y c ! m) = None"
      using a(6) \<open>n < 5\<close> pre nth by simp
    ultimately show ?thesis using a pre [of n] pre [of "Suc n"] nth [of n]
      by (intro stopped [of n e]) simp_all
  qed
qed

lemma script_no_upload: "c \<in> set (script ct d x y cf) \<Longrightarrow> \<not> is_upload c"
  by (auto simp: script_def prepare_calls_def plot_calls_def cosmetic_calls_def
      closing_calls_def Let_def split: if_splits option.splits)

lemma script_nth_no_upload:
  "n < length (script ct d x y cf) \<Longrightarrow> \<not> is_upload (script ct d x y cf ! n)"
  using script_no_upload nth_mem by blast

lemma last_take_Suc: "n < length xs \<Longrightarrow> last (take (Suc n) xs) = xs ! n"
  by (simp add: take_Suc_conv_app_nth)

lemma butlast_take_Suc: "n < length xs \<Longrightarrow> butlast (take (Suc n) xs) = take n xs"
  by (simp add: take_Suc_conv_app_nth)

lemma last_prepare_calls: "last (prepare_calls d c) = Subplots (option_value c ''figsize'')"
  "butlast (prepare_calls d c) = take 4 (prepare_calls d c)"
  "prepare_calls d c ! 4 = Subplots (option_value c ''figsize'')"
  by (simp_all add: prepare_calls_def)

lemma prepare_sem:
  "fst (prepare d (merge_config c) lib (s, [])) = Return () \<Longrightarrow> m < 5 \<Longrightarrow>
     raises lib (take m (prepare_calls d c)) (prepare_calls d c ! m) = None"
proof -
  assume a: "fst (prepare d (merge_config c) lib (s, [])) = Return ()" and m: "m < 5"
  obtain r1 s1 t1 where r1: "run (prepare_calls d c) lib (s, []) = (r1, s1, t1)"
    by (metis prod_cases3)
  with a have "r1 = Return ()" by (simp add: prepare_run)
  with run_sem [OF r1] m show ?thesis by (auto simp: prepare_calls_def)
qed

subsection \<open>Worked invocations\<close>

lemma default_values:
  "option_value None ''title'' = PNone"
  "option_value None ''figsize'' = PTuple [PInt 10, PInt 6]"
  "option_value None ''palette'' = PStr ''deep''"
  "option_value None ''hue'' = PNone"
  "option_value None ''style'' = PNone"
  "option_value None ''bins'' = PInt 30"
  "option_value None ''aggregate'' = PStr ''mean''"
  "option_value None ''error_bars'' = PBool False"
  "option_value None ''legend'' = PBool True"
  "option_value None ''grid'' = PBool True"
  "option_value None ''rotate_labels'' = PInt 0"
  "option_value None ''font_size'' = PInt 10"
  "option_value None ''theme'' = PStr ''darkgrid''"
  by (simp_all add: option_value_def merge_config_def default_config_def)

lemma library_simps:
  "raises no_failure h k = None"
  "effect no_failure h k = example_effect k"
  "raises (failing_at bad e) h k = (if k = bad then Some e else None)"
  "effect (failing_at bad e) h k = example_effect k"
  by (simp_all add: no_failure_def failing_at_def)

lemma run_no_failure:
  "run cs no_failure (s, t) = (Return (), replay no_failure t cs s, t @ cs)"
  by (induction cs arbitrary: s t)
    (simp_all add: ret_def next_do_def bind_def invoke_def library_simps)

lemma generate_chart_no_failure:
  "supported ct \<Longrightarrow>
   generate_chart ct d f x y c no_failure (s, []) =
     (Return (''https://'' @ bucket_name @ ''.s3.amazonaws.com/'' @ f),
      replay no_failure [] (script ct d x y c @ [UploadFileobj bucket_name f]) s,
      script ct d x y c @ [UploadFileobj bucket_name f])"
  by (simp add: generate_chart_supported next_do_def bind_def run_no_failure try_upload_sem
      replay_snoc library_simps)

lemma scatter_script:
  "script ''scatter'' sample_data ''a'' (Some ''b'') None =
     [JsonLoads sample_data, DataFrame, SetTheme (PStr ''darkgrid''), SetFontSize (PInt 10),
      Subplots (PTuple [PInt 10, PInt 6]),
      Scatterplot ''a'' (Some ''b'') PNone PNone (PStr ''deep''),
      Title (PStr ''Scatter Chart: b vs a''), Xlabel ''a'', Ylabel ''b'', Grid (PBool True),
      TightLayout, BytesIO, Savefig, Close, Seek, Session, Client ''s3'']"
  by (simp add: script_def prepare_calls_def plot_calls_def cosmetic_calls_def closing_calls_def
      default_values default_title_def y_text_def upper_char_def lower_char_def)

lemma scatter_run:
  "generate_chart ''scatter'' sample_data ''chart.png'' ''a'' (Some ''b'') None no_failure (fresh, []) =
     (Return ''https://gdsc-bucket-891377155936.s3.amazonaws.com/chart.png'',
      \<lparr>theme = PStr ''darkgrid'', font_size = PInt 10\<rparr>,
      [JsonLoads sample_data, DataFrame, SetTheme (PStr ''darkgrid''), SetFontSize (PInt 10),
      Subplots (PTuple [PInt 10, PInt 6]),
      Scatterplot ''a'' (Some ''b'') PNone PNone (PStr ''deep''),
      Title (PStr ''Scatter Chart: b vs a''), Xlabel ''a'', Ylabel ''b'', Grid (PBool True),
      TightLayout, BytesIO, Savefig, Close, Seek, Session, Client ''s3'',
      UploadFileobj ''gdsc-bucket-891377155936'' ''chart.png''])"
  by (simp add: generate_chart_no_failure supported_def scatter_script bucket_name_def fresh_def
      library_simps)

lemma scatter_refused:
  "generate_chart ''scatter'' sample_data ''chart.png'' ''a'' (Some ''b'') None
     (failing_at (UploadFileobj ''gdsc-bucket-891377155936'' ''chart.png'')
        (Exn ''ClientError'' ''Access Denied'')) (fresh, []) =
     (Return ''An error occurred: Access Denied'',
      \<lparr>theme = PStr ''darkgrid'', font_size = PInt 10\<rparr>,
      [JsonLoads sample_data, DataFrame, SetTheme (PStr ''darkgrid''), SetFontSize (PInt 10),
      Subplots (PTuple [PInt 10, PInt 6]),
      Scatterplot ''a'' (Some ''b'') PNone PNone (PStr ''deep''),
      Title (PStr ''Scatter Chart: b vs a''), Xlabel ''a'', Ylabel ''b'', Grid (PBool True),
      TightLayout, BytesIO, Savefig, Close, Seek, Session, Client ''s3'',
      UploadFileobj ''gdsc-bucket-891377155936'' ''chart.png''])"
  by (simp add: generate_chart_supported supported_def scatter_script bucket_name_def fresh_def
      next_do_def bind_def invoke_def ret_def library_simps try_upload_sem)

lemma scatter_interrupted:
  "generate_chart ''scatter'' sample_data ''chart.png'' ''a'' (Some ''b'') None
     (failing_at (UploadFileobj ''gdsc-bucket-891377155936'' ''chart.png'')
        (BaseExn ''KeyboardInterrupt'' [])) (fresh, []) =
     (Raise (BaseExn ''KeyboardInterrupt'' []),
      \<lparr>theme = PStr ''darkgrid'', font_size = PInt 10\<rparr>,
      [JsonLoads sample_data, DataFrame, SetTheme (PStr ''darkgrid''), SetFontSize (PInt 10),
      Subplots (PTuple [PInt 10, PInt 6]),
      Scatterplot ''a'' (Some ''b'') PNone PNone (PStr ''deep''),
      Title (PStr ''Scatter Chart: b vs a''), Xlabel ''a'', Ylabel ''b'', Grid (PBool True),
      TightLayout, BytesIO, Savefig, Close, Seek, Session, Client ''s3'',
      UploadFileobj ''gdsc-bucket-891377155936'' ''chart.png''])"
  by (simp add: generate_chart_supported supported_def scatter_script bucket_name_def fresh_def
      next_do_def bind_def invoke_def ret_def library_simps try_upload_sem)

lemma bad_json_run:
  "generate_chart ''scatter'' ''{'' ''chart.png'' ''a'' (Some ''b'') None
     (failing_at (JsonLoads ''{'') (Exn ''JSONDecodeError'' ''Expecting property name'')) (fresh, []) =
     (Raise (Exn ''JSONDecodeError'' ''Expecting property name''), fresh, [JsonLoads ''{''])"
  by (simp add: generate_chart_def prepare_def
      next_do_def bind_def invoke_def ret_def library_simps)

lemma unsupported_run:
  "generate_chart ''donut'' sample_data ''chart.png'' ''a'' (Some ''b'') None no_failure (fresh, []) =
     (Raise (Exn ''ValueError'' ''Unsupported chart type: donut''),
      \<lparr>theme = PStr ''darkgrid'', font_size = PInt 10\<rparr>,
      [JsonLoads sample_data, DataFrame, SetTheme (PStr ''darkgrid''), SetFontSize (PInt 10),
      Subplots (PTuple [PInt 10, PInt 6])])"
  by (simp add: generate_chart_unsupported supported_def next_do_def bind_def run_no_failure
      raise_def prepare_calls_def default_values fresh_def library_simps del: run.simps)

lemma prepare_no_failure:
  "fst (prepare d (merge_config c) no_failure (s, [])) = Return ()"
  by (simp add: prepare_run run_no_failure del: run.simps)

subsection \<open>Facts about the call list\<close>

lemma option_value_Some:
  "option_value (Some m) key = (case m key of None \<Rightarrow> option_value None key | Some v \<Rightarrow> v)"
  by (simp add: option_value_def merge_config_def map_add_def split: option.splits)






lemma filter_take_drop: "filter P (take k xs) @ filter P (drop k xs) = filter P xs"
  by (metis append_take_drop_id filter_append)

lemma trace_prefix:
  assumes "generate_chart ct d f x y c lib (s, []) = (r, s', t)"
  shows "\<exists>k. t = take k (script ct d x y c @ [UploadFileobj bucket_name f])
             \<and> s' = replay lib [] t s
             \<and> (\<forall>m. Suc m < k \<longrightarrow>
                   raises lib (take m (script ct d x y c @ [UploadFileobj bucket_name f]))
                     ((script ct d x y c @ [UploadFileobj bucket_name f]) ! m) = None)"
  using assms
proof (cases rule: invocation_cases)
  case (stopped n e)
  have "\<forall>m. Suc m < Suc n \<longrightarrow>
          raises lib (take m (script ct d x y c @ [UploadFileobj bucket_name f]))
            ((script ct d x y c @ [UploadFileobj bucket_name f]) ! m) = None"
    using stopped(1,7) by (simp add: nth_append)
  with stopped show ?thesis
    by (intro exI [of _ "Suc n"]) simp
next
  case rejected
  have len: "length (prepare_calls d c) = 5" by (simp add: prepare_calls_def)
  have p: "take m (script ct d x y c @ [UploadFileobj bucket_name f]) = take m (prepare_calls d c)"
    "(script ct d x y c @ [UploadFileobj bucket_name f]) ! m = prepare_calls d c ! m"
    if "m < 5" for m
    using that by (simp_all add: script_def len nth_append)
  have "take 5 (script ct d x y c @ [UploadFileobj bucket_name f]) = prepare_calls d c"
    by (simp add: script_def len)
  moreover have "\<forall>m. Suc m < 5 \<longrightarrow>
          raises lib (take m (script ct d x y c @ [UploadFileobj bucket_name f]))
            ((script ct d x y c @ [UploadFileobj bucket_name f]) ! m) = None"
    using rejected(5) p by simp
  ultimately show ?thesis using rejected
    by (intro exI [of _ 5]) simp
next
  case uploaded
  have "\<forall>m. Suc m < Suc (length (script ct d x y c)) \<longrightarrow>
          raises lib (take m (script ct d x y c @ [UploadFileobj bucket_name f]))
            ((script ct d x y c @ [UploadFileobj bucket_name f]) ! m) = None"
    using uploaded(6) by (simp add: nth_append)
  with uploaded show ?thesis
    by (intro exI [of _ "Suc (length (script ct d x y c))"]) simp
next
  case (refused e)
  have "\<forall>m. Suc m < Suc (length (script ct d x y c)) \<longrightarrow>
          raises lib (take m (script ct d x y c @ [UploadFileobj bucket_name f]))
            ((script ct d x y c @ [UploadFileobj bucket_name f]) ! m) = None"
    using refused(6) by (simp add: nth_append)
  with refused show ?thesis
    by (intro exI [of _ "Suc (length (script ct d x y c))"]) simp
next
  case (interrupted e)
  have "\<forall>m. Suc m < Suc (length (script ct d x y c)) \<longrightarrow>
          raises lib (take m (script ct d x y c @ [UploadFileobj bucket_name f]))
            ((script ct d x y c @ [UploadFileobj bucket_name f]) ! m) = None"
    using interrupted(6) by (simp add: nth_append)
  with interrupted show ?thesis
    by (intro exI [of _ "Suc (length (script ct d x y c))"]) simp
qed




lemma plot_calls_filter:
  "filter is_plot_call (plot_calls ct x y c) =
     (if ct = ''scatter'' then
        [Scatterplot x y (option_value c ''hue'') (option_value c ''style'')
           (option_value c ''palette'')]
      else if ct = ''line'' then
        [Lineplot x y (option_value c ''hue'') (option_value c ''style'')
           (option_value c ''palette'')
           (if truthy (option_value c ''error_bars'') then PStr ''sd'' else PNone)]
      else if ct = ''bar'' then
        [Barplot x y (option_value c ''hue'') (option_value c ''palette'')
           (if truthy (option_value c ''error_bars'') then PStr ''sd'' else PNone)
           (option_value c ''aggregate'')]
      else if ct = ''box'' then
        [Boxplot x y (option_value c ''hue'') (option_value c ''palette'')]
      else if ct = ''violin'' then
        [Violinplot x y (option_value c ''hue'') (option_value c ''palette'')]
      else if ct = ''heatmap'' then
        [Heatmap (Pivot y x (if truthy (option_value c ''hue'') then option_value c ''hue''
                             else PNone) (option_value c ''aggregate''))
           (option_value c ''palette'')]
      else if ct = ''pie'' then
        [Pie (Column y) (Column (Some x)) (option_value c ''palette'')]
      else if ct = ''histogram'' then
        [Histplot x (option_value c ''hue'') (option_value c ''bins'') (option_value c ''palette'')]
      else if ct = ''kde'' then
        [Kdeplot x (option_value c ''hue'') (option_value c ''palette'')]
      else [])"
  by (simp add: plot_calls_def Let_def)

lemma script_filter_plot:
  "filter is_plot_call (script ct d x y c) = filter is_plot_call (plot_calls ct x y c)"
  by (simp add: script_def prepare_calls_def cosmetic_calls_def closing_calls_def
      split: option.splits)

lemma plot_calls_one: "length (filter is_plot_call (plot_calls ct x y c)) \<le> 1"
  by (simp add: plot_calls_filter)

lemma plot_calls_supported:
  "supported ct \<Longrightarrow> length (filter is_plot_call (plot_calls ct x y c)) = 1"
  by (auto simp: plot_calls_filter supported_def)

lemma filter_take_short:
  assumes "length (filter P xs) \<le> 1"
  shows "filter P (take k xs) = [] \<or> filter P (take k xs) = filter P xs"
proof -
  have "filter P xs = filter P (take k xs) @ filter P (drop k xs)"
    by (metis append_take_drop_id filter_append)
  with assms show ?thesis
    by (cases "filter P (take k xs)") auto
qed

lemma script_filter_title:
  "filter is_title (script ct d x y c) =
     [Title (if truthy (option_value c ''title'') then option_value c ''title''
             else PStr (default_title ct x y))]"
  by (simp add: script_def prepare_calls_def cosmetic_calls_def closing_calls_def
      plot_calls_def Let_def split: option.splits)

lemma default_title_unfold:
  "default_title ct x y
     = capitalize ct @ '' Chart: '' @ (case y of None \<Rightarrow> [] | Some v \<Rightarrow> v) @ '' vs '' @ x"
  by (simp add: default_title_def y_text_def split: option.splits)

lemma take_through:
  assumes "x \<in> set (take k (A @ x # B))" and "x \<notin> set A"
  shows "take k (A @ x # B) = A @ x # take (k - Suc (length A)) B"
proof (cases "k \<le> length A")
  case True
  with assms(1) have "x \<in> set (take k A)" by simp
  with assms(2) show ?thesis by (meson in_set_takeD)
next
  case False
  then obtain j where j: "k - length A = Suc j" by (metis not_le Suc_diff_Suc)
  then have "k - Suc (length A) = j" by arith
  with False j show ?thesis by simp
qed

lemma script_layout:
  "script ct d x y c =
     (prepare_calls d c @ plot_calls ct x y c @ cosmetic_calls ct x y c)
     @ TightLayout # [BytesIO, Savefig, Close, Seek, Session, Client ''s3'']"
  by (simp add: script_def closing_calls_def)

lemma no_layout_before:
  "TightLayout \<notin> set (prepare_calls d c @ plot_calls ct x y c @ cosmetic_calls ct x y c)"
  by (auto simp: prepare_calls_def plot_calls_def cosmetic_calls_def Let_def
      split: if_splits option.splits)

lemma no_cosmetic_before:
  "filter is_cosmetic (prepare_calls d c @ plot_calls ct x y c) = []"
  by (simp add: prepare_calls_def plot_calls_def Let_def)

lemma no_cosmetic_after:
  "filter is_cosmetic (take k [BytesIO, Savefig, Close, Seek, Session, Client ''s3'']) = []"
  by (simp add: filter_empty_conv) (auto dest!: in_set_takeD)

lemma plotted_before:
  "supported ct \<Longrightarrow> filter is_plot_call (prepare_calls d c @ plot_calls ct x y c) \<noteq> []"
  using plot_calls_supported [of ct x y c]
  by (auto simp: prepare_calls_def)

lemma pie_script:
  "script ''pie'' d x y c =
     prepare_calls d c
     @ [GetItem y, GetItem (Some x), ColorPalette (option_value c ''palette''),
        Pie (Column y) (Column (Some x)) (option_value c ''palette'')]
     @ cosmetic_calls ''pie'' x y c @ closing_calls"
  by (simp add: script_def plot_calls_def Let_def)

lemma pie_script_facts:
  "length (prepare_calls d c) = 5"
  "5 < length (script ''pie'' d x y c)"
  "take 5 (script ''pie'' d x y c) = prepare_calls d c"
  "script ''pie'' d x y c ! 5 = GetItem y"
  "take 6 (script ''pie'' d x y c) = prepare_calls d c @ [GetItem y]"
  "take 4 (drop 5 (script ''pie'' d x y c @ rest)) =
     [GetItem y, GetItem (Some x), ColorPalette (option_value c ''palette''),
      Pie (Column y) (Column (Some x)) (option_value c ''palette'')]"
  by (simp_all add: pie_script prepare_calls_def)

lemma pie_lookup_fails:
  assumes run: "generate_chart ''pie'' d f x None c lib (s, []) = (r, s', t)"
    and fails: "\<forall>h. raises lib h (GetItem None) \<noteq> None"
  shows "(\<exists>e. r = Raise e) \<and> filter is_plot_call t = []
         \<and> (fst (prepare d (merge_config c) lib (s, [])) = Return ()
              \<and> raises lib (prepare_calls d c) (GetItem None) = Some e
            \<longrightarrow> r = Raise e \<and> t = prepare_calls d c @ [GetItem None])"
  using run
proof (cases rule: invocation_cases)
  case (stopped n e0)
  let ?S = "script ''pie'' d x None c"
  have n: "n \<le> 5"
  proof (rule ccontr)
    assume "\<not> n \<le> 5"
    then have "raises lib (take 5 ?S) (?S ! 5) = None" using stopped(7) by simp
    with fails [rule_format, of "prepare_calls d c"] show False
      by (simp add: pie_script_facts)
  qed
  then have "take (Suc n) ?S = take (Suc n) (take 6 ?S)" by (simp add: min_def)
  then have t: "t = take (Suc n) (prepare_calls d c @ [GetItem None])"
    using stopped(3) by (simp add: pie_script_facts)
  have "\<forall>k \<in> set (prepare_calls d c @ [GetItem None]). \<not> is_plot_call k"
    by (simp add: prepare_calls_def)
  then have noplot: "filter is_plot_call t = []"
    unfolding t filter_empty_conv by (meson in_set_takeD)
  have "r = Raise e \<and> t = prepare_calls d c @ [GetItem None]"
    if ok: "fst (prepare d (merge_config c) lib (s, [])) = Return ()"
      and e: "raises lib (prepare_calls d c) (GetItem None) = Some e"
  proof -
    have "\<not> n < 5"
    proof
      assume lt: "n < 5"
      then have "take n ?S = take n (prepare_calls d c)" "?S ! n = prepare_calls d c ! n"
        by (simp_all add: pie_script pie_script_facts nth_append)
      with stopped(4) prepare_sem [OF ok lt] show False by simp
    qed
    with n have "n = 5" by simp
    with stopped e t show ?thesis by (simp add: pie_script_facts)
  qed
  with stopped noplot show ?thesis by simp
next
  case rejected
  then show ?thesis by (simp add: supported_def)
next
  case uploaded
  from uploaded(6) pie_script_facts(2) [of d x None c]
  have "raises lib (take 5 (script ''pie'' d x None c)) (script ''pie'' d x None c ! 5) = None"
    by blast
  with fails [rule_format, of "prepare_calls d c"] show ?thesis
    by (simp add: pie_script_facts)
next
  case (refused e0)
  from refused(6) pie_script_facts(2) [of d x None c]
  have "raises lib (take 5 (script ''pie'' d x None c)) (script ''pie'' d x None c ! 5) = None"
    by blast
  with fails [rule_format, of "prepare_calls d c"] show ?thesis
    by (simp add: pie_script_facts)
next
  case (interrupted e0)
  from interrupted(6) pie_script_facts(2) [of d x None c]
  have "raises lib (take 5 (script ''pie'' d x None c)) (script ''pie'' d x None c ! 5) = None"
    by blast
  with fails [rule_format, of "prepare_calls d c"] show ?thesis
    by (simp add: pie_script_facts)
qed

lemma pie_returns:
  assumes "generate_chart ''pie'' d f x y c lib (s, []) = (Return u, s', t)"
  shows "take 4 (drop 5 t) =
           [GetItem y, GetItem (Some x), ColorPalette (option_value c ''palette''),
            Pie (Column y) (Column (Some x)) (option_value c ''palette'')]"
  using assms
proof (cases rule: invocation_cases)
  case (stopped n e)
  then show ?thesis by simp
next
  case rejected
  then show ?thesis by simp
next
  case uploaded
  then show ?thesis by (simp only: pie_script_facts)
next
  case (refused e)
  then show ?thesis by (simp only: pie_script_facts)
next
  case (interrupted e)
  then show ?thesis by simp
qed

lemmas script_eval =
  script_def prepare_calls_def plot_calls_def cosmetic_calls_def closing_calls_def
  option_value_Some default_values default_title_def y_text_def upper_char_def lower_char_def
  Let_def supported_def bucket_name_def

lemma pie_missing_run:
  "generate_chart ''pie'' sample_data ''chart.png'' ''a'' None None
     (failing_at (GetItem None) (Exn ''KeyError'' ''None'')) (fresh, []) =
     (Raise (Exn ''KeyError'' ''None''),
      \<lparr>theme = PStr ''darkgrid'', font_size = PInt 10\<rparr>,
      [JsonLoads sample_data, DataFrame, SetTheme (PStr ''darkgrid''), SetFontSize (PInt 10),
       Subplots (PTuple [PInt 10, PInt 6]), GetItem None])"
  by (simp add: generate_chart_supported script_eval fresh_def
      next_do_def bind_def invoke_def ret_def library_simps)

lemma pie_run:
  "generate_chart ''pie'' sample_data ''chart.png'' ''a'' (Some ''b'') None no_failure (fresh, []) =
     (Return ''https://gdsc-bucket-891377155936.s3.amazonaws.com/chart.png'',
      \<lparr>theme = PStr ''darkgrid'', font_size = PInt 10\<rparr>,
      [JsonLoads sample_data, DataFrame, SetTheme (PStr ''darkgrid''), SetFontSize (PInt 10),
       Subplots (PTuple [PInt 10, PInt 6]),
       GetItem (Some ''b''), GetItem (Some ''a''), ColorPalette (PStr ''deep''),
       Pie (Column (Some ''b'')) (Column (Some ''a'')) (PStr ''deep''),
       Title (PStr ''Pie Chart: b vs a''), Xlabel ''a'', Ylabel ''b'', Grid (PBool True),
       TightLayout, BytesIO, Savefig, Close, Seek, Session, Client ''s3'',
       UploadFileobj ''gdsc-bucket-891377155936'' ''chart.png''])"
  by (simp add: generate_chart_no_failure script_eval fresh_def library_simps)

lemma script_filter_cosmetic:
  "filter is_cosmetic (script ct d x y c) = cosmetic_calls ct x y c"
  by (simp add: script_def prepare_calls_def plot_calls_def cosmetic_calls_def closing_calls_def
      Let_def split: option.splits)

lemma trace_filter_cosmetic:
  "filter is_cosmetic (script ct d x y c @ [UploadFileobj b f]) = cosmetic_calls ct x y c"
  by (simp add: script_def prepare_calls_def plot_calls_def cosmetic_calls_def closing_calls_def
      Let_def split: option.splits)


lemma no_save_before:
  "BytesIO \<notin> set ((prepare_calls d c @ plot_calls ct x y c @ cosmetic_calls ct x y c)
                    @ [TightLayout])"
  by (auto simp: prepare_calls_def plot_calls_def cosmetic_calls_def Let_def
      split: if_splits option.splits)

lemma script_save:
  "script ct d x y c =
     ((prepare_calls d c @ plot_calls ct x y c @ cosmetic_calls ct x y c) @ [TightLayout])
     @ BytesIO # [Savefig, Close, Seek, Session, Client ''s3'']"
  by (simp add: script_def closing_calls_def)

lemma reach_layout:
  assumes run: "generate_chart ct d f x y c lib (s, []) = (r, s', t)"
    and reach: "(\<exists>u. r = Return u) \<or> BytesIO \<in> set t"
  shows "TightLayout \<in> set t"
  using run
proof (cases rule: invocation_cases)
  case (stopped n e)
  let ?A = "(prepare_calls d c @ plot_calls ct x y c @ cosmetic_calls ct x y c) @ [TightLayout]"
  let ?R = "[Savefig, Close, Seek, Session, Client ''s3'']"
  from reach stopped(5) have "BytesIO \<in> set t" by simp
  with stopped(3) have mem: "BytesIO \<in> set (take (Suc n) (?A @ BytesIO # ?R))"
    by (simp only: script_save)
  from take_through [OF mem no_save_before]
  have "t = ?A @ BytesIO # take (Suc n - Suc (length ?A)) ?R"
    using stopped(3) by (simp only: script_save)
  then have "set ?A \<subseteq> set t" by (simp only: set_append) blast
  then show ?thesis by simp
next
  case rejected
  with reach show ?thesis by (simp add: prepare_calls_def)
next
  case uploaded
  then show ?thesis by (simp add: script_layout)
next
  case (refused e)
  then show ?thesis by (simp add: script_layout)
next
  case (interrupted e)
  then show ?thesis by (simp add: script_layout)
qed

lemma layout_decorated:
  assumes run: "generate_chart ct d f x y c lib (s, []) = (r, s', t)"
    and layout: "TightLayout \<in> set t"
  shows "supported ct
         \<and> (\<exists>before after.
               t = before @ cosmetic_calls ct x y c @ TightLayout # after
               \<and> filter is_plot_call before \<noteq> []
               \<and> filter is_cosmetic before = []
               \<and> filter is_cosmetic after = [])"
proof -
  let ?P = "prepare_calls d c @ plot_calls ct x y c"
  let ?C = "cosmetic_calls ct x y c"
  let ?R = "[BytesIO, Savefig, Close, Seek, Session, Client ''s3'']"
  let ?S = "script ct d x y c"
  have whole: "?S = (?P @ ?C) @ TightLayout # ?R"
    by (simp add: script_layout)
  have absent: "TightLayout \<notin> set (?P @ ?C)"
    using no_layout_before [of d c ct x y] by simp
  have "\<exists>after. t = ?P @ ?C @ TightLayout # after \<and> supported ct
          \<and> filter is_cosmetic after = []"
    using run
  proof (cases rule: invocation_cases)
    case (stopped n e)
    from layout stopped(3) have mem: "TightLayout \<in> set (take (Suc n) ((?P @ ?C) @ TightLayout # ?R))"
      by (simp only: whole)
    from take_through [OF mem absent]
    have t: "t = (?P @ ?C) @ TightLayout # take (Suc n - Suc (length (?P @ ?C))) ?R"
      using stopped(3) by (simp only: whole)
    have "supported ct"
    proof (rule ccontr)
      assume "\<not> supported ct"
      with stopped(2) have "Suc n \<le> length (prepare_calls d c)"
        by (simp add: prepare_calls_def)
      then have "take (Suc n) ?S = take (Suc n) (prepare_calls d c)"
        by (simp add: script_def)
      with layout stopped(3) have "TightLayout \<in> set (prepare_calls d c)"
        by (metis in_set_takeD)
      then show False by (simp add: prepare_calls_def)
    qed
    with t no_cosmetic_after [of "Suc n - Suc (length (?P @ ?C))"] show ?thesis
      by (intro exI [of _ "take (Suc n - Suc (length (?P @ ?C))) ?R"]) simp
  next
    case rejected
    with layout show ?thesis by (simp add: prepare_calls_def)
  next
    case uploaded
    then show ?thesis
      by (intro exI [of _ "?R @ [UploadFileobj bucket_name f]"]) (simp add: whole)
  next
    case (refused e)
    then show ?thesis
      by (intro exI [of _ "?R @ [UploadFileobj bucket_name f]"]) (simp add: whole)
  next
    case (interrupted e)
    then show ?thesis
      by (intro exI [of _ "?R @ [UploadFileobj bucket_name f]"]) (simp add: whole)
  qed
  then obtain after where a: "t = ?P @ ?C @ TightLayout # after" "supported ct"
    "filter is_cosmetic after = []" by blast
  show ?thesis
    using a plotted_before [OF a(2), of d c x y] no_cosmetic_before [of d c ct x y]
    by (intro conjI exI [of _ ?P] exI [of _ after]) simp_all
qed

lemma styled_run:
  "supported tag \<Longrightarrow>
   generate_chart tag sample_data ''chart.png'' ''a'' (Some ''b'') styled no_failure (fresh, []) =
     (Return ''https://gdsc-bucket-891377155936.s3.amazonaws.com/chart.png'',
      replay no_failure []
        (script tag sample_data ''a'' (Some ''b'') styled
         @ [UploadFileobj ''gdsc-bucket-891377155936'' ''chart.png'']) fresh,
      script tag sample_data ''a'' (Some ''b'') styled
      @ [UploadFileobj ''gdsc-bucket-891377155936'' ''chart.png''])"
  by (simp add: generate_chart_no_failure bucket_name_def)

lemma styled_decoration:
  "cosmetic_calls tag ''a'' (Some ''b'') styled =
     [Title (PStr ''Sales''), Xlabel ''a'', Ylabel ''b'', Xticks (PInt 45), Grid (PBool True),
      Legend, LegendRemove]"
  by (simp add: cosmetic_calls_def styled_def option_value_Some default_values)



section \<open>Properties of \<open>generate_chart\<close>\<close>

subsection \<open>The options dictionary\<close>

text \<open>
  Claim C5. With \<open>config\<close> absent the merged dictionary is \<open>default_config\<close>; with a
  dictionary given, every key it holds keeps the caller's value and every key it omits
  has the value of \<open>default_config\<close>. The defaults are: title \<open>None\<close>, figsize \<open>(10, 6)\<close>,
  palette \<open>'deep'\<close>, hue \<open>None\<close>, style \<open>None\<close>, orientation \<open>'v'\<close>, bins \<open>30\<close>, aggregate
  \<open>'mean'\<close>, error\_bars \<open>False\<close>, legend \<open>True\<close>, grid \<open>True\<close>, rotate\_labels \<open>0\<close>, font\_size
  \<open>10\<close>, theme \<open>'darkgrid'\<close>.
\<close>

theorem config_defaults:
  "merge_config None = default_config
   \<and> merge_config (Some given_config) key
       = (case given_config key of None \<Rightarrow> default_config key | Some v \<Rightarrow> Some v)
   \<and> default_config ''title'' = Some PNone
   \<and> default_config ''figsize'' = Some (PTuple [PInt 10, PInt 6])
   \<and> default_config ''palette'' = Some (PStr ''deep'')
   \<and> default_config ''hue'' = Some PNone
   \<and> default_config ''style'' = Some PNone
   \<and> default_config ''orientation'' = Some (PStr ''v'')
   \<and> default_config ''bins'' = Some (PInt 30)
   \<and> default_config ''aggregate'' = Some (PStr ''mean'')
   \<and> default_config ''error_bars'' = Some (PBool False)
   \<and> default_config ''legend'' = Some (PBool True)
   \<and> default_config ''grid'' = Some (PBool True)
   \<and> default_config ''rotate_labels'' = Some (PInt 0)
   \<and> default_config ''font_size'' = Some (PInt 10)
   \<and> default_config ''theme'' = Some (PStr ''darkgrid'')"
  by (simp add: merge_config_def map_add_def default_config_def split: option.splits)

subsection \<open>The upload and its two outcomes\<close>

text \<open>
  Claim C2. When the last call of an invocation is the upload and the object store does
  not raise on it, \<open>generate_chart\<close> returns the address
  \<open>https://gdsc-bucket-891377155936.s3.amazonaws.com/<filename>\<close>, and the upload went to the
  bucket \<open>gdsc-bucket-891377155936\<close> under the caller's file name, whatever that name is.
\<close>

theorem upload_success_url:
  assumes "generate_chart chart_type data_json filename x_axis y_axis config lib (s, []) = (r, s', t)"
    and "is_upload (last t)"
    and "raises lib (butlast t) (last t) = None"
  shows "r = Return (''https://gdsc-bucket-891377155936.s3.amazonaws.com/'' @ filename)
         \<and> last t = UploadFileobj ''gdsc-bucket-891377155936'' filename"
  using assms(1)
proof (cases rule: invocation_cases)
  case (stopped n e)
  with assms(2) script_nth_no_upload [of n chart_type data_json x_axis y_axis config]
  show ?thesis by (simp add: last_take_Suc)
next
  case rejected
  with assms(2) show ?thesis by (simp add: last_prepare_calls)
next
  case uploaded
  then show ?thesis by (simp add: bucket_name_def)
next
  case (refused e)
  with assms(3) show ?thesis by simp
next
  case (interrupted e)
  with assms(3) show ?thesis by simp
qed

theorem upload_success_url_witness:
  "is_upload (last (snd (snd (generate_chart ''scatter'' sample_data ''chart.png'' ''a''
      (Some ''b'') None no_failure (fresh, [])))))
   \<and> raises no_failure
        (butlast (snd (snd (generate_chart ''scatter'' sample_data ''chart.png'' ''a''
           (Some ''b'') None no_failure (fresh, [])))))
        (last (snd (snd (generate_chart ''scatter'' sample_data ''chart.png'' ''a''
           (Some ''b'') None no_failure (fresh, []))))) = None
   \<and> fst (generate_chart ''scatter'' sample_data ''chart.png'' ''a'' (Some ''b'') None
          no_failure (fresh, []))
       = Return ''https://gdsc-bucket-891377155936.s3.amazonaws.com/chart.png''"
  using upload_success_url [OF scatter_run]
  by (simp add: scatter_run library_simps)

text \<open>
  Claim C3, corrected. When the upload to the object store raises an exception \<open>e\<close> that
  is an instance of \<open>Exception\<close>, \<open>generate_chart\<close> does not raise: it returns the string
  \<open>An error occurred: \<close> followed by \<open>str(e)\<close>. An exception outside \<open>Exception\<close> is not
  caught: the invocation raises it. This is stated twice: for every invocation whose
  last call is the upload and on which the object store raised; and for every supported
  chart type and every library in which the upload raises \<open>e\<close> and no other call raises,
  where the upload is then the last call of the invocation. Success and failure are
  both returned strings, and the two strings differ, so the content tells them apart.
\<close>

theorem upload_failure_message:
  assumes "generate_chart chart_type data_json filename x_axis y_axis config lib (s, []) = (r, s', t)"
  shows "(is_upload (last t) \<and> raises lib (butlast t) (last t) = Some e \<longrightarrow>
            last t = UploadFileobj ''gdsc-bucket-891377155936'' filename
            \<and> (is_exception e \<longrightarrow> r = Return (''An error occurred: '' @ exn_str e))
            \<and> (\<not> is_exception e \<longrightarrow> r = Raise e))
         \<and> (supported chart_type
              \<and> (\<forall>h c. \<not> is_upload c \<longrightarrow> raises lib h c = None)
              \<and> (\<forall>h. raises lib h (UploadFileobj ''gdsc-bucket-891377155936'' filename) = Some e)
            \<longrightarrow> last t = UploadFileobj ''gdsc-bucket-891377155936'' filename
                \<and> (is_exception e \<longrightarrow> r = Return (''An error occurred: '' @ exn_str e))
                \<and> (\<not> is_exception e \<longrightarrow> r = Raise e))
         \<and> ''An error occurred: '' @ exn_str e
             \<noteq> ''https://gdsc-bucket-891377155936.s3.amazonaws.com/'' @ filename"
proof -
  have differ: "''An error occurred: '' @ exn_str e
                  \<noteq> ''https://gdsc-bucket-891377155936.s3.amazonaws.com/'' @ filename"
    by simp
  have "(is_upload (last t) \<and> raises lib (butlast t) (last t) = Some e \<longrightarrow>
            last t = UploadFileobj ''gdsc-bucket-891377155936'' filename
            \<and> (is_exception e \<longrightarrow> r = Return (''An error occurred: '' @ exn_str e))
            \<and> (\<not> is_exception e \<longrightarrow> r = Raise e))
         \<and> (supported chart_type
              \<and> (\<forall>h c. \<not> is_upload c \<longrightarrow> raises lib h c = None)
              \<and> (\<forall>h. raises lib h (UploadFileobj ''gdsc-bucket-891377155936'' filename) = Some e)
            \<longrightarrow> last t = UploadFileobj ''gdsc-bucket-891377155936'' filename
                \<and> (is_exception e \<longrightarrow> r = Return (''An error occurred: '' @ exn_str e))
                \<and> (\<not> is_exception e \<longrightarrow> r = Raise e))"
    using assms
  proof (cases rule: invocation_cases)
    case (stopped n e0)
    from stopped(1) have nu: "\<not> is_upload (script chart_type data_json x_axis y_axis config ! n)"
      by (rule script_nth_no_upload)
    with stopped(1,3) have "\<not> is_upload (last t)" by (simp add: last_take_Suc)
    moreover from nu stopped(4) have "\<not> (\<forall>h c. \<not> is_upload c \<longrightarrow> raises lib h c = None)"
      by (metis option.distinct(1))
    ultimately show ?thesis by blast
  next
    case rejected
    then show ?thesis by (simp add: last_prepare_calls)
  next
    case uploaded
    then show ?thesis by (auto simp: bucket_name_def)
  next
    case (refused e0)
    then show ?thesis by (auto simp: bucket_name_def)
  next
    case (interrupted e0)
    then show ?thesis by (auto simp: bucket_name_def)
  qed
  with differ show ?thesis by blast
qed

theorem upload_failure_message_witness:
  "supported ''scatter''
   \<and> (\<forall>h c. is_upload c
              \<or> raises (failing_at (UploadFileobj ''gdsc-bucket-891377155936'' ''chart.png'')
                          (Exn ''ClientError'' ''Access Denied'')) h c = None)
   \<and> (\<forall>h. raises (failing_at (UploadFileobj ''gdsc-bucket-891377155936'' ''chart.png'')
                     (Exn ''ClientError'' ''Access Denied'')) h
              (UploadFileobj ''gdsc-bucket-891377155936'' ''chart.png'')
            = Some (Exn ''ClientError'' ''Access Denied''))
   \<and> is_exception (Exn ''ClientError'' ''Access Denied'')
   \<and> last (snd (snd (generate_chart ''scatter'' sample_data ''chart.png'' ''a'' (Some ''b'') None
                        (failing_at (UploadFileobj ''gdsc-bucket-891377155936'' ''chart.png'')
                           (Exn ''ClientError'' ''Access Denied'')) (fresh, []))))
       = UploadFileobj ''gdsc-bucket-891377155936'' ''chart.png''
   \<and> raises (failing_at (UploadFileobj ''gdsc-bucket-891377155936'' ''chart.png'')
               (Exn ''ClientError'' ''Access Denied''))
        (butlast (snd (snd (generate_chart ''scatter'' sample_data ''chart.png'' ''a''
           (Some ''b'') None
           (failing_at (UploadFileobj ''gdsc-bucket-891377155936'' ''chart.png'')
              (Exn ''ClientError'' ''Access Denied'')) (fresh, [])))))
        (last (snd (snd (generate_chart ''scatter'' sample_data ''chart.png'' ''a''
           (Some ''b'') None
           (failing_at (UploadFileobj ''gdsc-bucket-891377155936'' ''chart.png'')
              (Exn ''ClientError'' ''Access Denied'')) (fresh, [])))))
       = Some (Exn ''ClientError'' ''Access Denied'')
   \<and> fst (generate_chart ''scatter'' sample_data ''chart.png'' ''a'' (Some ''b'') None
            (failing_at (UploadFileobj ''gdsc-bucket-891377155936'' ''chart.png'')
               (Exn ''ClientError'' ''Access Denied'')) (fresh, []))
       = Return ''An error occurred: Access Denied''"
  using upload_failure_message [OF scatter_refused, of "Exn ''ClientError'' ''Access Denied''"]
  by (simp add: scatter_refused library_simps supported_def)

text \<open>
  Claim C3 as the specification states it has every exception raised by the upload
  caught. The handler is \<open>except Exception\<close>: when the upload of a scatter chart is
  interrupted from the keyboard, the \<open>KeyboardInterrupt\<close> it raises is not an instance of
  \<open>Exception\<close>, and the invocation raises it instead of returning the message.
\<close>

theorem upload_failure_message_counterexample:
  "last (snd (snd (generate_chart ''scatter'' sample_data ''chart.png'' ''a'' (Some ''b'') None
                     (failing_at (UploadFileobj ''gdsc-bucket-891377155936'' ''chart.png'')
                        (BaseExn ''KeyboardInterrupt'' [])) (fresh, []))))
     = UploadFileobj ''gdsc-bucket-891377155936'' ''chart.png''
   \<and> raises (failing_at (UploadFileobj ''gdsc-bucket-891377155936'' ''chart.png'')
               (BaseExn ''KeyboardInterrupt'' []))
        (butlast (snd (snd (generate_chart ''scatter'' sample_data ''chart.png'' ''a''
           (Some ''b'') None
           (failing_at (UploadFileobj ''gdsc-bucket-891377155936'' ''chart.png'')
              (BaseExn ''KeyboardInterrupt'' [])) (fresh, [])))))
        (UploadFileobj ''gdsc-bucket-891377155936'' ''chart.png'')
       = Some (BaseExn ''KeyboardInterrupt'' [])
   \<and> fst (generate_chart ''scatter'' sample_data ''chart.png'' ''a'' (Some ''b'') None
            (failing_at (UploadFileobj ''gdsc-bucket-891377155936'' ''chart.png'')
               (BaseExn ''KeyboardInterrupt'' [])) (fresh, []))
       = Raise (BaseExn ''KeyboardInterrupt'' [])
   \<and> fst (generate_chart ''scatter'' sample_data ''chart.png'' ''a'' (Some ''b'') None
            (failing_at (UploadFileobj ''gdsc-bucket-891377155936'' ''chart.png'')
               (BaseExn ''KeyboardInterrupt'' [])) (fresh, []))
       \<noteq> Return (''An error occurred: '' @ exn_str (BaseExn ''KeyboardInterrupt'' []))"
  by (simp add: scatter_interrupted library_simps)

text \<open>
  Claim C8. Only the upload is guarded. When \<open>json.loads\<close> raises on the payload, the
  invocation raises that exception after this one call; and whenever the last call of
  an invocation is not the upload and the library raised on it (parsing, building the
  frame, a plotting call that misses a column, saving, opening the session), the
  invocation raises that exception instead of returning a string.
\<close>

theorem other_failures_propagate:
  assumes "generate_chart chart_type data_json filename x_axis y_axis config lib (s, []) = (r, s', t)"
  shows "(raises lib [] (JsonLoads data_json) = Some e \<longrightarrow> r = Raise e \<and> t = [JsonLoads data_json])
         \<and> (\<not> is_upload (last t) \<and> raises lib (butlast t) (last t) = Some e' \<longrightarrow> r = Raise e')"
  using assms(1)
proof (cases rule: invocation_cases)
  case (stopped n e0)
  have first: "script chart_type data_json x_axis y_axis config ! 0 = JsonLoads data_json"
    by (simp add: script_def prepare_calls_def)
  have "raises lib [] (JsonLoads data_json) = Some e \<Longrightarrow> n = 0"
    using stopped(7) first by (cases n) auto
  moreover have "n = 0 \<Longrightarrow> t = [JsonLoads data_json]"
    using stopped(3) by (simp add: script_def prepare_calls_def)
  ultimately show ?thesis
    using stopped first by (auto simp: last_take_Suc butlast_take_Suc)
next
  case rejected
  have "raises lib [] (JsonLoads data_json) = None"
    using rejected(5) [rule_format, of 0] by (simp add: prepare_calls_def)
  moreover have "raises lib (butlast t) (last t) = None"
    using rejected(5) [rule_format, of 4] rejected(2) by (simp add: last_prepare_calls)
  ultimately show ?thesis by simp
next
  case uploaded
  have "raises lib [] (JsonLoads data_json) = None"
    using uploaded(6) [rule_format, of 0] by (simp add: script_def prepare_calls_def)
  with uploaded show ?thesis by simp
next
  case (refused e0)
  have "raises lib [] (JsonLoads data_json) = None"
    using refused(6) [rule_format, of 0] by (simp add: script_def prepare_calls_def)
  with refused show ?thesis by simp
next
  case (interrupted e0)
  have "raises lib [] (JsonLoads data_json) = None"
    using interrupted(6) [rule_format, of 0] by (simp add: script_def prepare_calls_def)
  with interrupted show ?thesis by simp
qed

theorem other_failures_propagate_witness:
  "raises (failing_at (JsonLoads ''{'') (Exn ''JSONDecodeError'' ''Expecting property name'')) []
       (JsonLoads ''{'') = Some (Exn ''JSONDecodeError'' ''Expecting property name'')
   \<and> fst (generate_chart ''scatter'' ''{'' ''chart.png'' ''a'' (Some ''b'') None
          (failing_at (JsonLoads ''{'') (Exn ''JSONDecodeError'' ''Expecting property name''))
          (fresh, []))
       = Raise (Exn ''JSONDecodeError'' ''Expecting property name'')"
  using other_failures_propagate [OF bad_json_run,
      of "Exn ''JSONDecodeError'' ''Expecting property name''"
         "Exn ''JSONDecodeError'' ''Expecting property name''"]
  by (simp add: bad_json_run library_simps)

subsection \<open>The dispatch on the chart type\<close>

text \<open>
  Claim C4. For a chart type that is none of the nine tags, \<open>generate_chart\<close> never
  returns a string, neither an address nor an error message: it raises. Lines 83 to 92
  run before the dispatch; once they have completed without an exception, the exception
  raised is the \<open>ValueError\<close> of line 194, whose message is \<open>Unsupported chart type: \<close>
  followed by the chart type.
\<close>

theorem unsupported_chart_type:
  assumes "\<not> supported chart_type"
    and "generate_chart chart_type data_json filename x_axis y_axis config lib (s, []) = (r, s', t)"
  shows "(\<exists>e. r = Raise e)
         \<and> (fst (prepare data_json (merge_config config) lib (s, [])) = Return ()
              \<longrightarrow> r = Raise (Exn ''ValueError'' (''Unsupported chart type: '' @ chart_type)))"
  using assms(2)
proof (cases rule: invocation_cases)
  case (stopped n e)
  with assms(1) have n: "n < 5" by simp
  have len: "length (prepare_calls data_json config) = 5" by (simp add: prepare_calls_def)
  have "take n (script chart_type data_json x_axis y_axis config) = take n (prepare_calls data_json config)"
    "script chart_type data_json x_axis y_axis config ! n = prepare_calls data_json config ! n"
    using n by (simp_all add: script_def len nth_append)
  with stopped prepare_sem [of data_json config lib s n] n show ?thesis by auto
next
  case rejected
  then show ?thesis by simp
next
  case uploaded
  with assms(1) show ?thesis by simp
next
  case (refused e)
  with assms(1) show ?thesis by simp
next
  case (interrupted e)
  with assms(1) show ?thesis by simp
qed

theorem unsupported_chart_type_witness:
  "\<not> supported ''donut''
   \<and> fst (prepare sample_data (merge_config None) no_failure (fresh, [])) = Return ()
   \<and> fst (generate_chart ''donut'' sample_data ''chart.png'' ''a'' (Some ''b'') None
          no_failure (fresh, []))
       = Raise (Exn ''ValueError'' ''Unsupported chart type: donut'')"
  using unsupported_chart_type [OF _ unsupported_run]
  by (simp add: supported_def prepare_no_failure unsupported_run)

text \<open>
  Claim C1, corrected. For each of the nine tags an invocation calls at most one plotting
  procedure, and an invocation that returns has called exactly one: the procedure of
  the tag (\<open>scatterplot\<close>, \<open>lineplot\<close>, \<open>barplot\<close>, \<open>boxplot\<close>, \<open>violinplot\<close>, \<open>heatmap\<close> over
  the pivot table, \<open>pie\<close>, \<open>histplot\<close>, \<open>kdeplot\<close>), with \<open>x_axis\<close> and the merged options of
  that chart type. \<open>y_axis\<close> is passed to seven of them (as \<open>y\<close>, as the \<open>values\<close> of the
  pivot table, as the key of the column of wedge sizes); \<open>histplot\<close> and \<open>kdeplot\<close> are
  called with \<open>x_axis\<close> only, whatever \<open>y_axis\<close> the caller supplied.
\<close>

theorem plot_dispatch:
  assumes "generate_chart chart_type data_json filename x_axis y_axis config lib (s, []) = (r, s', t)"
  shows "let hue = option_value config ''hue'';
             style = option_value config ''style'';
             palette = option_value config ''palette'';
             errorbar = (if truthy (option_value config ''error_bars'') then PStr ''sd'' else PNone);
             aggregate = option_value config ''aggregate'';
             bins = option_value config ''bins'';
             pivot = Pivot y_axis x_axis (if truthy hue then hue else PNone) aggregate;
             expected =
               (if chart_type = ''scatter'' then [Scatterplot x_axis y_axis hue style palette]
                else if chart_type = ''line'' then
                  [Lineplot x_axis y_axis hue style palette errorbar]
                else if chart_type = ''bar'' then
                  [Barplot x_axis y_axis hue palette errorbar aggregate]
                else if chart_type = ''box'' then [Boxplot x_axis y_axis hue palette]
                else if chart_type = ''violin'' then [Violinplot x_axis y_axis hue palette]
                else if chart_type = ''heatmap'' then [Heatmap pivot palette]
                else if chart_type = ''pie'' then
                  [Pie (Column y_axis) (Column (Some x_axis)) palette]
                else if chart_type = ''histogram'' then [Histplot x_axis hue bins palette]
                else if chart_type = ''kde'' then [Kdeplot x_axis hue palette]
                else [])
         in (filter is_plot_call t = [] \<or> filter is_plot_call t = expected)
            \<and> ((\<exists>u. r = Return u) \<longrightarrow>
                 supported chart_type \<and> filter is_plot_call t = expected \<and> length expected = 1)"
proof -
  let ?S = "script chart_type data_json x_axis y_axis config"
  let ?E = "filter is_plot_call (plot_calls chart_type x_axis y_axis config)"
  have "(filter is_plot_call t = [] \<or> filter is_plot_call t = ?E)
        \<and> ((\<exists>u. r = Return u) \<longrightarrow> supported chart_type \<and> filter is_plot_call t = ?E \<and> length ?E = 1)"
    using assms
  proof (cases rule: invocation_cases)
    case (stopped n e)
    have "length (filter is_plot_call ?S) \<le> 1"
      by (simp only: script_filter_plot plot_calls_one)
    from filter_take_short [OF this, of "Suc n"] stopped show ?thesis
      by (simp add: script_filter_plot)
  next
    case rejected
    then show ?thesis by (simp add: prepare_calls_def)
  next
    case uploaded
    then show ?thesis by (simp add: script_filter_plot plot_calls_supported)
  next
    case (refused e)
    then show ?thesis by (simp add: script_filter_plot plot_calls_supported)
  next
    case (interrupted e)
    then show ?thesis by (simp add: script_filter_plot plot_calls_supported)
  qed
  then show ?thesis
    unfolding plot_calls_filter Let_def .
qed

theorem plot_dispatch_witness:
  "fst (generate_chart ''scatter'' sample_data ''chart.png'' ''a'' (Some ''b'') None
          no_failure (fresh, []))
     = Return ''https://gdsc-bucket-891377155936.s3.amazonaws.com/chart.png''
   \<and> supported ''scatter''
   \<and> filter is_plot_call
         (snd (snd (generate_chart ''scatter'' sample_data ''chart.png'' ''a'' (Some ''b'') None
                      no_failure (fresh, []))))
       = [Scatterplot ''a'' (Some ''b'') PNone PNone (PStr ''deep'')]"
  using plot_dispatch [OF scatter_run]
  by (simp add: scatter_run default_values Let_def)

text \<open>
  Claim C1 as the specification states it has every one of the nine procedures receive
  the supplied \<open>y_axis\<close>. For a histogram of column \<open>a\<close> called with \<open>y_axis = 'b'\<close> the one plotting
  call is \<open>histplot\<close> with \<open>x = 'a'\<close>, hue \<open>None\<close>, \<open>30\<close> bins and palette \<open>'deep'\<close>: \<open>'b'\<close> is
  not among its arguments.
\<close>

theorem plot_dispatch_counterexample:
  "fst (generate_chart ''histogram'' sample_data ''chart.png'' ''a'' (Some ''b'') None
          no_failure (fresh, []))
     = Return ''https://gdsc-bucket-891377155936.s3.amazonaws.com/chart.png''
   \<and> filter is_plot_call
         (snd (snd (generate_chart ''histogram'' sample_data ''chart.png'' ''a'' (Some ''b'') None
                      no_failure (fresh, []))))
       = [Histplot ''a'' PNone (PInt 30) (PStr ''deep'')]
   \<and> map y_argument
         (filter is_plot_call
            (snd (snd (generate_chart ''histogram'' sample_data ''chart.png'' ''a'' (Some ''b'')
                         None no_failure (fresh, [])))))
       \<noteq> [Some ''b'']"
  by (simp add: generate_chart_no_failure script_eval)

text \<open>
  Claim C9. A pie chart that is drawn takes its wedge sizes from the column \<open>df[y_axis]\<close>
  and its labels from the column \<open>df[x_axis]\<close>: an invocation that returns has looked up
  both, in this order, right after creating the figure, and has passed them to \<open>plt.pie\<close>.
  With \<open>y_axis = None\<close> and a frame in which the lookup of the key \<open>None\<close> fails (pandas
  has no such column in a frame built from JSON), the invocation never returns a string
  and never reaches \<open>plt.pie\<close>: it raises, and once lines 83 to 92 have completed the
  exception is the one of the failed lookup, raised by the sixth call.
\<close>

theorem pie_requires_y_column:
  "(generate_chart ''pie'' data_json filename x_axis y_axis config lib (s, []) = (Return u, s', t)
      \<longrightarrow> take 4 (drop 5 t) =
            [GetItem y_axis, GetItem (Some x_axis), ColorPalette (option_value config ''palette''),
             Pie (Column y_axis) (Column (Some x_axis)) (option_value config ''palette'')])
   \<and> (generate_chart ''pie'' data_json filename x_axis None config lib (s, []) = (r, s2, t2)
        \<and> (\<forall>h. raises lib h (GetItem None) \<noteq> None)
      \<longrightarrow> (\<exists>e. r = Raise e) \<and> filter is_plot_call t2 = []
          \<and> (fst (prepare data_json (merge_config config) lib (s, [])) = Return ()
               \<and> raises lib (prepare_calls data_json config) (GetItem None) = Some e
             \<longrightarrow> r = Raise e \<and> t2 = prepare_calls data_json config @ [GetItem None]))"
  using pie_returns [of data_json filename x_axis y_axis config lib s u s' t]
    pie_lookup_fails [of data_json filename x_axis config lib s r s2 t2 e]
  by blast

theorem pie_requires_y_column_witness:
  "(\<forall>h. raises (failing_at (GetItem None) (Exn ''KeyError'' ''None'')) h (GetItem None) \<noteq> None)
   \<and> fst (generate_chart ''pie'' sample_data ''chart.png'' ''a'' None None
            (failing_at (GetItem None) (Exn ''KeyError'' ''None'')) (fresh, []))
       = Raise (Exn ''KeyError'' ''None'')
   \<and> filter is_plot_call
         (snd (snd (generate_chart ''pie'' sample_data ''chart.png'' ''a'' None None
                      (failing_at (GetItem None) (Exn ''KeyError'' ''None'')) (fresh, []))))
       = []
   \<and> take 4 (drop 5 (snd (snd (generate_chart ''pie'' sample_data ''chart.png'' ''a''
                                   (Some ''b'') None no_failure (fresh, [])))))
       = [GetItem (Some ''b''), GetItem (Some ''a''), ColorPalette (PStr ''deep''),
          Pie (Column (Some ''b'')) (Column (Some ''a'')) (PStr ''deep'')]"
  using pie_requires_y_column
    [of sample_data "''chart.png''" "''a''" "Some ''b''" None no_failure fresh
        "''https://gdsc-bucket-891377155936.s3.amazonaws.com/chart.png''"]
    pie_requires_y_column
    [of sample_data "''chart.png''" "''a''" None None
        "failing_at (GetItem None) (Exn ''KeyError'' ''None'')" fresh]
  by (simp add: pie_run pie_missing_run library_simps)

subsection \<open>Settings and decoration\<close>



text \<open>
  Claim C6. The decorating calls of an invocation are, in this order: the title (the
  configured title when it is truthy, the generated default otherwise), the x label
  \<open>x_axis\<close>, the y label \<open>y_axis\<close> when \<open>y_axis\<close> is given (neither \<open>None\<close> nor empty), the
  tick rotation by \<open>rotate_labels\<close> when that is truthy (a nonzero number), the grid with
  the \<open>grid\<close> flag, and the removal of the legend when the \<open>legend\<close> flag is falsy
  (\<open>False\<close>). No invocation makes any other decorating call: what it has made is a prefix
  of this list. Every invocation that returns, and every invocation that gets as far as
  saving the figure, was called with one of the nine tags and has made all of them,
  after the plot and before \<open>tight_layout\<close>, and no decorating call before the plot or
  after the layout adjustment.
\<close>

theorem cosmetics_applied:
  assumes "generate_chart chart_type data_json filename x_axis y_axis config lib (s, []) = (r, s', t)"
  shows "let decoration =
               [Title (if truthy (option_value config ''title'') then option_value config ''title''
                       else PStr (default_title chart_type x_axis y_axis)),
                Xlabel x_axis]
               @ (case y_axis of None \<Rightarrow> [] | Some y \<Rightarrow> if y = [] then [] else [Ylabel y])
               @ (if truthy (option_value config ''rotate_labels'')
                  then [Xticks (option_value config ''rotate_labels'')] else [])
               @ [Grid (option_value config ''grid'')]
               @ (if truthy (option_value config ''legend'') then [] else [Legend, LegendRemove])
         in (\<exists>rest. decoration = filter is_cosmetic t @ rest)
            \<and> ((\<exists>u. r = Return u) \<or> BytesIO \<in> set t \<longrightarrow>
                 supported chart_type
                 \<and> (\<exists>before after.
                       t = before @ decoration @ TightLayout # after
                       \<and> filter is_plot_call before \<noteq> []
                       \<and> filter is_cosmetic before = []
                       \<and> filter is_cosmetic after = []))"
proof -
  let ?T = "script chart_type data_json x_axis y_axis config @ [UploadFileobj bucket_name filename]"
  let ?C = "cosmetic_calls chart_type x_axis y_axis config"
  from trace_prefix [OF assms] obtain k where t: "t = take k ?T" by blast
  have "?C = filter is_cosmetic (take k ?T) @ filter is_cosmetic (drop k ?T)"
    by (simp only: filter_take_drop trace_filter_cosmetic)
  then have made: "\<exists>rest. ?C = filter is_cosmetic t @ rest"
    unfolding t by (rule exI)
  have all: "(\<exists>u. r = Return u) \<or> BytesIO \<in> set t \<longrightarrow>
      supported chart_type
      \<and> (\<exists>before after.
            t = before @ ?C @ TightLayout # after
            \<and> filter is_plot_call before \<noteq> []
            \<and> filter is_cosmetic before = []
            \<and> filter is_cosmetic after = [])"
  proof
    assume "(\<exists>u. r = Return u) \<or> BytesIO \<in> set t"
    from layout_decorated [OF assms reach_layout [OF assms this]]
    show "supported chart_type
      \<and> (\<exists>before after.
            t = before @ ?C @ TightLayout # after
            \<and> filter is_plot_call before \<noteq> []
            \<and> filter is_cosmetic before = []
            \<and> filter is_cosmetic after = [])" .
  qed
  from made all show ?thesis
    unfolding Let_def cosmetic_calls_def by (rule conjI)
qed

theorem cosmetics_applied_witness:
  "fst (generate_chart ''scatter'' sample_data ''chart.png'' ''a'' (Some ''b'') styled
          no_failure (fresh, []))
       = Return ''https://gdsc-bucket-891377155936.s3.amazonaws.com/chart.png''
   \<and> filter is_cosmetic
         (snd (snd (generate_chart ''scatter'' sample_data ''chart.png'' ''a'' (Some ''b'') styled
                      no_failure (fresh, []))))
       = [Title (PStr ''Sales''), Xlabel ''a'', Ylabel ''b'', Xticks (PInt 45),
          Grid (PBool True), Legend, LegendRemove]
   \<and> fst (generate_chart ''line'' sample_data ''chart.png'' ''a'' (Some ''b'') styled
          no_failure (fresh, []))
       = Return ''https://gdsc-bucket-891377155936.s3.amazonaws.com/chart.png''
   \<and> filter is_cosmetic
         (snd (snd (generate_chart ''line'' sample_data ''chart.png'' ''a'' (Some ''b'') styled
                      no_failure (fresh, []))))
       = [Title (PStr ''Sales''), Xlabel ''a'', Ylabel ''b'', Xticks (PInt 45),
          Grid (PBool True), Legend, LegendRemove]
   \<and> fst (generate_chart ''bar'' sample_data ''chart.png'' ''a'' (Some ''b'') styled
          no_failure (fresh, []))
       = Return ''https://gdsc-bucket-891377155936.s3.amazonaws.com/chart.png''
   \<and> filter is_cosmetic
         (snd (snd (generate_chart ''bar'' sample_data ''chart.png'' ''a'' (Some ''b'') styled
                      no_failure (fresh, []))))
       = [Title (PStr ''Sales''), Xlabel ''a'', Ylabel ''b'', Xticks (PInt 45),
          Grid (PBool True), Legend, LegendRemove]
   \<and> fst (generate_chart ''box'' sample_data ''chart.png'' ''a'' (Some ''b'') styled
          no_failure (fresh, []))
       = Return ''https://gdsc-bucket-891377155936.s3.amazonaws.com/chart.png''
   \<and> filter is_cosmetic
         (snd (snd (generate_chart ''box'' sample_data ''chart.png'' ''a'' (Some ''b'') styled
                      no_failure (fresh, []))))
       = [Title (PStr ''Sales''), Xlabel ''a'', Ylabel ''b'', Xticks (PInt 45),
          Grid (PBool True), Legend, LegendRemove]
   \<and> fst (generate_chart ''violin'' sample_data ''chart.png'' ''a'' (Some ''b'') styled
          no_failure (fresh, []))
       = Return ''https://gdsc-bucket-891377155936.s3.amazonaws.com/chart.png''
   \<and> filter is_cosmetic
         (snd (snd (generate_chart ''violin'' sample_data ''chart.png'' ''a'' (Some ''b'') styled
                      no_failure (fresh, []))))
       = [Title (PStr ''Sales''), Xlabel ''a'', Ylabel ''b'', Xticks (PInt 45),
          Grid (PBool True), Legend, LegendRemove]
   \<and> fst (generate_chart ''heatmap'' sample_data ''chart.png'' ''a'' (Some ''b'') styled
          no_failure (fresh, []))
       = Return ''https://gdsc-bucket-891377155936.s3.amazonaws.com/chart.png''
   \<and> filter is_cosmetic
         (snd (snd (generate_chart ''heatmap'' sample_data ''chart.png'' ''a'' (Some ''b'') styled
                      no_failure (fresh, []))))
       = [Title (PStr ''Sales''), Xlabel ''a'', Ylabel ''b'', Xticks (PInt 45),
          Grid (PBool True), Legend, LegendRemove]
   \<and> fst (generate_chart ''pie'' sample_data ''chart.png'' ''a'' (Some ''b'') styled
          no_failure (fresh, []))
       = Return ''https://gdsc-bucket-891377155936.s3.amazonaws.com/chart.png''
   \<and> filter is_cosmetic
         (snd (snd (generate_chart ''pie'' sample_data ''chart.png'' ''a'' (Some ''b'') styled
                      no_failure (fresh, []))))
       = [Title (PStr ''Sales''), Xlabel ''a'', Ylabel ''b'', Xticks (PInt 45),
          Grid (PBool True), Legend, LegendRemove]
   \<and> fst (generate_chart ''histogram'' sample_data ''chart.png'' ''a'' (Some ''b'') styled
          no_failure (fresh, []))
       = Return ''https://gdsc-bucket-891377155936.s3.amazonaws.com/chart.png''
   \<and> filter is_cosmetic
         (snd (snd (generate_chart ''histogram'' sample_data ''chart.png'' ''a'' (Some ''b'') styled
                      no_failure (fresh, []))))
       = [Title (PStr ''Sales''), Xlabel ''a'', Ylabel ''b'', Xticks (PInt 45),
          Grid (PBool True), Legend, LegendRemove]
   \<and> fst (generate_chart ''kde'' sample_data ''chart.png'' ''a'' (Some ''b'') styled
          no_failure (fresh, []))
       = Return ''https://gdsc-bucket-891377155936.s3.amazonaws.com/chart.png''
   \<and> filter is_cosmetic
         (snd (snd (generate_chart ''kde'' sample_data ''chart.png'' ''a'' (Some ''b'') styled
                      no_failure (fresh, []))))
       = [Title (PStr ''Sales''), Xlabel ''a'', Ylabel ''b'', Xticks (PInt 45),
          Grid (PBool True), Legend, LegendRemove]"
proof -
  have one: "fst (generate_chart tag sample_data ''chart.png'' ''a'' (Some ''b'') styled
                    no_failure (fresh, []))
               = Return ''https://gdsc-bucket-891377155936.s3.amazonaws.com/chart.png''
             \<and> filter is_cosmetic
                 (snd (snd (generate_chart tag sample_data ''chart.png'' ''a'' (Some ''b'') styled
                              no_failure (fresh, []))))
               = [Title (PStr ''Sales''), Xlabel ''a'', Ylabel ''b'', Xticks (PInt 45),
                  Grid (PBool True), Legend, LegendRemove]"
    if "supported tag" for tag
    using cosmetics_applied [OF styled_run [OF that]]
    by (simp add: styled_run [OF that] script_filter_cosmetic styled_decoration)
  show ?thesis
    using one [of "''scatter''"] one [of "''line''"] one [of "''bar''"] one [of "''box''"] one [of "''violin''"] one [of "''heatmap''"] one [of "''pie''"] one [of "''histogram''"] one [of "''kde''"]
    by (simp add: supported_def)
qed

text \<open>
  Claim C10. When the configured title is falsy (\<open>None\<close>, the empty string), the only title
  an invocation ever sets is the generated one, the capitalised chart type followed by
  \<open> Chart: \<close>, \<open>y_axis\<close> (nothing when \<open>y_axis\<close> is \<open>None\<close>), \<open> vs \<close> and \<open>x_axis\<close>; an
  invocation that returns has set it. So an empty title given by the caller is replaced
  by the generated title.
\<close>

theorem default_title_when_falsy:
  assumes "generate_chart chart_type data_json filename x_axis y_axis config lib (s, []) = (r, s', t)"
    and "\<not> truthy (option_value config ''title'')"
  shows "(filter is_title t = []
          \<or> filter is_title t =
              [Title (PStr (capitalize chart_type @ '' Chart: ''
                            @ (case y_axis of None \<Rightarrow> [] | Some y \<Rightarrow> y) @ '' vs '' @ x_axis))])
         \<and> ((\<exists>u. r = Return u) \<longrightarrow>
               filter is_title t =
                 [Title (PStr (capitalize chart_type @ '' Chart: ''
                               @ (case y_axis of None \<Rightarrow> [] | Some y \<Rightarrow> y) @ '' vs '' @ x_axis))])
         \<and> \<not> truthy PNone \<and> \<not> truthy (PStr [])"
  using assms(1)
proof (cases rule: invocation_cases)
  case (stopped n e)
  let ?S = "script chart_type data_json x_axis y_axis config"
  have "length (filter is_title ?S) \<le> 1"
    by (simp add: script_filter_title)
  from filter_take_short [OF this, of "Suc n"] stopped assms(2) show ?thesis
    by (simp add: script_filter_title default_title_unfold)
next
  case rejected
  then show ?thesis by (simp add: prepare_calls_def)
next
  case uploaded
  with assms(2) show ?thesis by (simp add: script_filter_title default_title_unfold)
next
  case (refused e)
  with assms(2) show ?thesis by (simp add: script_filter_title default_title_unfold)
next
  case (interrupted e)
  with assms(2) show ?thesis by (simp add: script_filter_title default_title_unfold)
qed

theorem default_title_when_falsy_witness:
  "\<not> truthy (option_value (Some [''title'' \<mapsto> PStr []]) ''title'')
   \<and> fst (generate_chart ''histogram'' sample_data ''chart.png'' ''a'' None
            (Some [''title'' \<mapsto> PStr []]) no_failure (fresh, []))
       = Return ''https://gdsc-bucket-891377155936.s3.amazonaws.com/chart.png''
   \<and> filter is_title
         (snd (snd (generate_chart ''histogram'' sample_data ''chart.png'' ''a'' None
                      (Some [''title'' \<mapsto> PStr []]) no_failure (fresh, []))))
       = [Title (PStr ''Histogram Chart:  vs a'')]"
proof -
  let ?c = "Some [''title'' \<mapsto> PStr []]"
  let ?S = "script ''histogram'' sample_data ''a'' None ?c"
  have run: "generate_chart ''histogram'' sample_data ''chart.png'' ''a'' None ?c
               no_failure (fresh, [])
             = (Return (''https://'' @ bucket_name @ ''.s3.amazonaws.com/'' @ ''chart.png''),
                replay no_failure [] (?S @ [UploadFileobj bucket_name ''chart.png'']) fresh,
                ?S @ [UploadFileobj bucket_name ''chart.png''])"
    by (rule generate_chart_no_failure) (simp add: supported_def)
  have falsy: "\<not> truthy (option_value ?c ''title'')"
    by (simp add: option_value_Some)
  from default_title_when_falsy [OF run falsy] falsy show ?thesis
    by (simp add: run bucket_name_def upper_char_def lower_char_def)
qed

end
